theory Spec2Isabelle
  imports Complex_Main "HOL-Library.AList"
begin

section \<open>Values, requests and responses\<close>

text \<open>
  The backend is an Express application: a request passes through a chain of
  middlewares (\<open>authenticateToken\<close>, \<open>requireRole\<close>, \<open>validate\<close>) and reaches a
  route handler, which talks to the database through the ORM and answers with
  \<open>successResponse\<close> or \<open>errorResponse\<close>.

  JavaScript values that travel in request bodies, rows and response payloads are JSON
  values. A number is the rational it denotes; a JavaScript object is an association list
  read with \<open>map_of\<close> (a parsed object has distinct keys). A string is a list of
  characters of one byte each.
\<close>

datatype json =
    JNull
  | JBool bool
  | JNum rat
  | JStr string
  | JArr "json list"
  | JObj "(string \<times> json) list"

type_synonym obj = "(string \<times> json) list"
type_synonym row = "(string \<times> json) list"

text \<open>\<open>o.k\<close> on a value that may or may not be an object: \<open>None\<close> is \<open>undefined\<close>.\<close>

fun get_prop :: "json \<Rightarrow> string \<Rightarrow> json option" where
  "get_prop (JObj kvs) k = map_of kvs k"
| "get_prop _ k = None"

text \<open>
  What a thrown exception is: the ORM's errors by their \<open>name\<close>; a validation error
  lists its violations (a null in an attribute that forbids it, a failed validator), the
  others name the column or the constraint. \<open>JsError\<close> is an error of the language or
  of another library, by its name. \<open>error.message\<close> of an exception is kept symbolic (\<open>Message\<close>); texts
  written in the source are \<open>Text\<close>; a Joi message that the schema does not override is
  the library's template for an error code and a field label (\<open>Template\<close>).
\<close>

datatype violation = NotNull string | ValidatorFailed string

datatype exn =
    SequelizeValidationError "violation list"
  | SequelizeForeignKeyConstraintError string
  | SequelizeUniqueConstraintError string
  | SequelizeDatabaseError string
  | JsError string

datatype errtext =
    Text string
  | Template string string
  | Message exn

text \<open>
  \<open>res.status(status).json({success: true, data, message})\<close> and
  \<open>res.status(status).json({success: false, error, code})\<close>.
\<close>

datatype response =
    Success nat json string
  | Failure nat errtext string

definition successResponse :: "json \<Rightarrow> string \<Rightarrow> nat \<Rightarrow> response" where
  "successResponse data message status = Success status data message"

definition errorResponse :: "errtext \<Rightarrow> string \<Rightarrow> nat \<Rightarrow> response" where
  "errorResponse error code status = Failure status error code"

fun status_of :: "response \<Rightarrow> nat" where
  "status_of (Success s d m) = s"
| "status_of (Failure s e c) = s"

fun code_of :: "response \<Rightarrow> string option" where
  "code_of (Success s d m) = None"
| "code_of (Failure s e c) = Some c"

fun data_of :: "response \<Rightarrow> json option" where
  "data_of (Success s d m) = Some d"
| "data_of (Failure s e c) = None"

text \<open>
  A request: the \<open>Authorization\<close> header, the path parameter \<open>:id\<close>, the query string
  (each parameter once, with a string for its value), the parsed body and \<open>req.user\<close>.
\<close>

record request =
  headers_authorization :: "string option"
  params_id :: string
  query :: "(string \<times> string) list"
  body :: json
  user :: "row option"

text \<open>
  A number of the language is a double-precision value: a finite one, kept as the
  rational it is, \<open>NaN\<close> or an infinity. The two zeros are not told apart: \<open>String\<close>
  and JSON write both as \<open>0\<close>, and the routes divide by a zero only where the quotient
  is written with JSON, as \<open>null\<close>.
\<close>

datatype number = Num rat | NaN | Infinity | MinusInfinity

text \<open>
  A value that is a string or a number, as a parameter of the query string with a
  default is (\<open>const { page = 1 } = req.query\<close>), and a count or a sum as the driver
  of the database gives it.
\<close>

datatype jsval = Str string | Number number

text \<open>
  The five tables. A row is keyed by attribute name, as the ORM's instance holds it
  (\<open>dataValues\<close>); the model option \<open>timestamps: true\<close> adds the attributes
  \<open>createdAt\<close> and \<open>updatedAt\<close>. The \<open>_seq\<close> fields are the auto-increment counters
  of the primary keys.
\<close>

record db =
  users :: "row list"
  customers :: "row list"
  leads :: "row list"
  tasks :: "row list"
  interactions :: "row list"
  users_seq :: nat
  customers_seq :: nat
  leads_seq :: nat
  tasks_seq :: nat
  interactions_seq :: nat

text \<open>
  What the code calls outside the repository: the token library (\<open>jwt_verify\<close>,
  \<open>jwt_sign\<close>), the password hash, the clock, the format checks of Joi
  (\<open>joi_email\<close>, \<open>joi_number\<close>: a number written as a string, \<open>joi_date\<close>), the
  verdicts of the ORM's attribute validators (\<open>validator_ok\<close>), and the database engine:
  its dialect (\<open>DATABASE_URL\<close> selects SQLite or PostgreSQL), whether a column of a type
  takes a value (\<open>db_accepts\<close>), how it compares an integer key with a string
  (\<open>db_key\<close>: the number it reads the string as, none when the string can equal no
  key, or an error; SQLite reads \<open>10e-1\<close> as 1, PostgreSQL refuses it), and the rows of
  a table that a \<open>where\<close> clause selects, in the order an \<open>order\<close> clause gives them,
  before \<open>LIMIT\<close> and \<open>OFFSET\<close> (\<open>db_select\<close>, which may raise). For the reports the engine also evaluates what the
  code hands to it as SQL text: \<open>SUM\<close> over the values of a column (\<open>db_sum\<close>: a
  number or a string, as the driver gives it, or \<open>NULL\<close>), the number of customers that the
  literal
  \<open>"createdAt" >= date('now', '-30 days')\<close> counts (\<open>db_newThisMonth\<close>, which may
  raise), and the leads of the trailing interval \<open>CURRENT_DATE - INTERVAL '...'\<close> put
  into the groups of \<open>DATE_TRUNC(period, createdAt)\<close>, in ascending order of the period
  (\<open>db_periods\<close>, which may raise). Every theorem below holds for all of them.
\<close>

datatype jwt_result = Decoded json | Throws string

datatype dialect = Sqlite | Postgres

datatype table = Users | Customers | Leads | Tasks | Interactions

datatype data_type =
    INTEGER
  | STRING
  | TEXT
  | ENUM "string list"
  | DECIMAL nat nat
  | DATE
  | DATEONLY

datatype validator = Len nat nat | IsEmail | Min rat | IsDate

text \<open>A \<open>where\<close> option of a query, and its \<open>order\<close> option.\<close>

datatype cond =
    Eq string json
  | ILike string string
  | Overlap string "string list"
  | Or "cond list"

datatype direction = ASC | DESC

record env =
  jwt_verify :: "string \<Rightarrow> jwt_result"
  jwt_sign :: "json \<Rightarrow> string"
  bcrypt_hash :: "string \<Rightarrow> string"
  bcrypt_compare :: "string \<Rightarrow> string \<Rightarrow> bool"
  now :: rat
  joi_email :: "string \<Rightarrow> bool"
  joi_number :: "string \<Rightarrow> rat option"
  joi_date :: "json \<Rightarrow> bool"
  dialect :: dialect
  validator_ok :: "validator \<Rightarrow> json \<Rightarrow> bool"
  db_accepts :: "data_type \<Rightarrow> json \<Rightarrow> bool"
  db_key :: "string \<Rightarrow> exn + rat option"
  db_select :: "table \<Rightarrow> cond list \<Rightarrow> (string \<times> direction) list \<Rightarrow> row list
    \<Rightarrow> exn + row list"
  db_sum :: "json list \<Rightarrow> jsval option"
  db_newThisMonth :: "row list \<Rightarrow> exn + nat"
  db_periods :: "string \<Rightarrow> string \<Rightarrow> row list \<Rightarrow> exn + (json \<times> row list) list"

section \<open>Decimal strings\<close>

definition is_digit :: "char \<Rightarrow> bool" where
  "is_digit c = (48 \<le> (of_char c :: nat) \<and> (of_char c :: nat) \<le> 57)"

definition digit_val :: "char \<Rightarrow> int" where
  "digit_val c = int (of_char c) - 48"

definition digit_char :: "nat \<Rightarrow> char" where
  "digit_char d = char_of (48 + d)"

fun digits_val :: "int \<Rightarrow> string \<Rightarrow> int" where
  "digits_val acc [] = acc"
| "digits_val acc (c # cs) = digits_val (10 * acc + digit_val c) cs"

text \<open>The decimal rendering of a natural number.\<close>

function dec :: "nat \<Rightarrow> string" where
  "dec n = (if n < 10 then [digit_char n] else dec (n div 10) @ [digit_char (n mod 10)])"
  by pat_completeness auto
termination
  by (relation "measure id") auto

declare dec.simps [simp del]

definition all_digits :: "string \<Rightarrow> bool" where
  "all_digits s = (s \<noteq> [] \<and> list_all is_digit s)"

section \<open>JavaScript numbers\<close>

text \<open>
  The number of digits of a positive integer in a base, and \<open>\<lfloor>log\<^sub>b x\<rfloor>\<close> for a
  positive rational \<open>x\<close>.
\<close>

function digit_count :: "int \<Rightarrow> int \<Rightarrow> nat" where
  "digit_count b n = (if n \<le> 0 \<or> b \<le> 1 then 0 else Suc (digit_count b (n div b)))"
  by pat_completeness auto
termination
  by (relation "measure (\<lambda>(b, n). nat n)") (auto intro!: int_div_less_self)

declare digit_count.simps [simp del]

definition power_of :: "rat \<Rightarrow> int \<Rightarrow> rat" where
  "power_of b k = (if 0 \<le> k then b ^ nat k else 1 / b ^ nat (- k))"

definition floor_log :: "int \<Rightarrow> rat \<Rightarrow> int" where
  "floor_log b x =
     (if 1 \<le> x then int (digit_count b \<lfloor>x\<rfloor>) - 1
      else - int (digit_count b (\<lceil>1 / x\<rceil> - 1)))"

text \<open>
  The double nearest to a rational: 53 significant bits, an exponent of at least
  \<open>-1022\<close>, a tie going to the even significand; beyond the largest double, an infinity.
\<close>

definition nearest_even :: "rat \<Rightarrow> int" where
  "nearest_even x =
     (let n = \<lfloor>x\<rfloor>; r = x - of_int n in
      if r < 1 / 2 then n else if 1 / 2 < r then n + 1 else if even n then n else n + 1)"

definition round_double :: "rat \<Rightarrow> rat" where
  "round_double x =
     (if x = 0 then 0
      else let ulp = power_of 2 (max (floor_log 2 \<bar>x\<bar>) (- 1022) - 52) in
           sgn x * of_int (nearest_even (\<bar>x\<bar> / ulp)) * ulp)"

definition double :: "rat \<Rightarrow> number" where
  "double x =
     (let r = round_double x in
      if r = 0 then Num 0
      else if 1024 \<le> floor_log 2 \<bar>r\<bar> then (if 0 < r then Infinity else MinusInfinity)
      else Num r)"

text \<open>
  \<open>x - y\<close>, \<open>x * y\<close> and \<open>x / y\<close>. A division by zero gives the infinity of the sign of
  the dividend (of the other sign, in the language, when the zero is the negative one).
\<close>

definition sign :: "number \<Rightarrow> int" where
  "sign x =
     (case x of
        Num a \<Rightarrow> (if a < 0 then - 1 else if a = 0 then 0 else 1)
      | NaN \<Rightarrow> 0
      | Infinity \<Rightarrow> 1
      | MinusInfinity \<Rightarrow> - 1)"

definition infinity :: "int \<Rightarrow> number" where
  "infinity s = (if s = 0 then NaN else if 0 < s then Infinity else MinusInfinity)"

fun js_minus :: "number \<Rightarrow> number \<Rightarrow> number" where
  "js_minus (Num a) (Num b) = double (a - b)"
| "js_minus NaN y = NaN"
| "js_minus x NaN = NaN"
| "js_minus (Num a) y = infinity (- sign y)"
| "js_minus x (Num b) = infinity (sign x)"
| "js_minus x y = (if sign x = sign y then NaN else infinity (sign x))"

fun js_times :: "number \<Rightarrow> number \<Rightarrow> number" where
  "js_times (Num a) (Num b) = double (a * b)"
| "js_times NaN y = NaN"
| "js_times x NaN = NaN"
| "js_times x y = infinity (sign x * sign y)"

fun js_divide :: "number \<Rightarrow> number \<Rightarrow> number" where
  "js_divide (Num a) (Num b) = (if b = 0 then infinity (sign (Num a)) else double (a / b))"
| "js_divide NaN y = NaN"
| "js_divide x NaN = NaN"
| "js_divide (Num a) y = Num 0"
| "js_divide x (Num b) = infinity (sign x * (if b < 0 then - 1 else 1))"
| "js_divide x y = NaN"

fun js_plus :: "number \<Rightarrow> number \<Rightarrow> number" where
  "js_plus (Num a) (Num b) = double (a + b)"
| "js_plus NaN y = NaN"
| "js_plus x NaN = NaN"
| "js_plus (Num a) y = y"
| "js_plus x (Num b) = x"
| "js_plus x y = (if sign x = sign y then x else NaN)"

text \<open>\<open>x > 0\<close>.\<close>

definition positive :: "number \<Rightarrow> bool" where
  "positive x = (0 < sign x)"

text \<open>
  \<open>parseFloat(x.toFixed(2))\<close>: the nearest multiple of a hundredth, the larger of two
  that are as near, read back as a number; from \<open>10\<^sup>2\<^sup>1\<close> on \<open>toFixed\<close> writes the
  number as \<open>String\<close> does.
\<close>

fun toFixed2 :: "number \<Rightarrow> number" where
  "toFixed2 (Num x) =
     (if 10 ^ 21 \<le> \<bar>x\<bar> then Num x
      else double (sgn x * of_int \<lfloor>\<bar>x\<bar> * 100 + 1 / 2\<rfloor> / 100))"
| "toFixed2 x = x"

text \<open>\<open>Math.ceil(x)\<close>, and a number as \<open>res.json\<close> writes it.\<close>

fun Math_ceil :: "number \<Rightarrow> number" where
  "Math_ceil (Num a) = Num (of_int \<lceil>a\<rceil>)"
| "Math_ceil x = x"

fun json_of :: "number \<Rightarrow> json" where
  "json_of (Num a) = JNum a"
| "json_of x = JNull"

text \<open>
  White space and line ends, among the characters of one byte, and \<open>s.trim()\<close>.
\<close>

definition js_space :: "char \<Rightarrow> bool" where
  "js_space c = ((of_char c :: nat) \<in> {9, 10, 11, 12, 13, 32, 160})"

definition trim :: "string \<Rightarrow> string" where
  "trim s = rev (dropWhile js_space (rev (dropWhile js_space s)))"

text \<open>The digits of a base up to 16, and the value of a string of them.\<close>

definition hex_val :: "char \<Rightarrow> int option" where
  "hex_val c =
     (let n = int (of_char c) in
      if 48 \<le> n \<and> n \<le> 57 then Some (n - 48)
      else if 65 \<le> n \<and> n \<le> 70 then Some (n - 55)
      else if 97 \<le> n \<and> n \<le> 102 then Some (n - 87)
      else None)"

definition digit_in :: "int \<Rightarrow> char \<Rightarrow> bool" where
  "digit_in b c = (case hex_val c of None \<Rightarrow> False | Some v \<Rightarrow> v < b)"

fun radix_val :: "int \<Rightarrow> int \<Rightarrow> string \<Rightarrow> int" where
  "radix_val b acc [] = acc"
| "radix_val b acc (c # cs) =
     (case hex_val c of
        None \<Rightarrow> acc
      | Some v \<Rightarrow> radix_val b (b * acc + v) cs)"

text \<open>
  A string as a number (\<open>Number(s)\<close>, and what \<open>-\<close>, \<open>*\<close> and \<open>/\<close> make of a string
  operand): white space around it is dropped; the empty string is 0; then a decimal
  literal with an optional sign, fraction and exponent, \<open>Infinity\<close> with an optional
  sign, or digits of base 16, 8 or 2 after \<open>0x\<close>, \<open>0o\<close> or \<open>0b\<close>; anything else is
  \<open>NaN\<close>.
\<close>

definition exponent_part :: "string \<Rightarrow> int option" where
  "exponent_part s =
     (case s of
        [] \<Rightarrow> Some 0
      | c # cs \<Rightarrow>
          (if c = CHR ''e'' \<or> c = CHR ''E'' then
             (case cs of
                [] \<Rightarrow> None
              | c' # ds \<Rightarrow>
                  (if c' = CHR ''-''
                   then (if all_digits ds then Some (- digits_val 0 ds) else None)
                   else if c' = CHR ''+''
                   then (if all_digits ds then Some (digits_val 0 ds) else None)
                   else (if all_digits cs then Some (digits_val 0 cs) else None)))
           else None))"

definition unsigned_decimal :: "string \<Rightarrow> rat option" where
  "unsigned_decimal s =
     (let i = takeWhile is_digit s;
          r = dropWhile is_digit s;
          point = (r \<noteq> [] \<and> hd r = CHR ''.'');
          f = (if point then takeWhile is_digit (tl r) else []);
          r' = (if point then dropWhile is_digit (tl r) else r)
      in if i = [] \<and> f = [] then None
         else map_option
                (\<lambda>n. (of_int (digits_val 0 i) + of_int (digits_val 0 f) / 10 ^ length f)
                      * power_of 10 n)
                (exponent_part r'))"

definition signed :: "(string \<Rightarrow> 'a option) \<Rightarrow> ('a \<Rightarrow> 'a) \<Rightarrow> string \<Rightarrow> 'a option" where
  "signed unsigned_literal negate s =
     (case s of
        [] \<Rightarrow> unsigned_literal s
      | c # cs \<Rightarrow>
          (if c = CHR ''-'' then map_option negate (unsigned_literal cs)
           else if c = CHR ''+'' then unsigned_literal cs
           else unsigned_literal s))"

definition decimal_literal :: "string \<Rightarrow> rat option" where
  "decimal_literal = signed unsigned_decimal uminus"

definition non_decimal :: "string \<Rightarrow> int option" where
  "non_decimal s =
     (case s of
        c0 # x # ds \<Rightarrow>
          (let b = (if x = CHR ''x'' \<or> x = CHR ''X'' then 16
                    else if x = CHR ''o'' \<or> x = CHR ''O'' then 8
                    else if x = CHR ''b'' \<or> x = CHR ''B'' then 2
                    else 0)
           in if c0 = CHR ''0'' \<and> b \<noteq> 0 \<and> ds \<noteq> [] \<and> list_all (digit_in b) ds
              then Some (radix_val b 0 ds) else None)
      | _ \<Rightarrow> None)"

definition StringToNumber :: "string \<Rightarrow> number" where
  "StringToNumber s =
     (let t = trim s in
      if t = [] then Num 0
      else case non_decimal t of
             Some n \<Rightarrow> double (of_int n)
           | None \<Rightarrow>
               (case signed (\<lambda>u. if u = ''Infinity'' then Some Infinity else None)
                       (\<lambda>x. MinusInfinity) t of
                  Some x \<Rightarrow> x
                | None \<Rightarrow>
                    (case decimal_literal t of
                       Some q \<Rightarrow> double q
                     | None \<Rightarrow> NaN)))"

text \<open>
  \<open>parseInt(s)\<close> of a string: leading white space, a sign, then the longest run of
  digits, of base 16 after \<open>0x\<close>; \<open>NaN\<close> when there is no digit.
\<close>

definition hex_prefix :: "string \<Rightarrow> bool" where
  "hex_prefix s =
     (case s of
        c0 # x # cs \<Rightarrow> c0 = CHR ''0'' \<and> (x = CHR ''x'' \<or> x = CHR ''X'')
      | _ \<Rightarrow> False)"

definition unsigned :: "string \<Rightarrow> int option" where
  "unsigned s =
     (if hex_prefix s then
        (if takeWhile (digit_in 16) (drop 2 s) = [] then None
         else Some (radix_val 16 0 (drop 2 s)))
      else
        (if takeWhile is_digit s = [] then None
         else Some (digits_val 0 (takeWhile is_digit s))))"

definition parseInt_string :: "string \<Rightarrow> number" where
  "parseInt_string s =
     (case signed unsigned uminus (dropWhile js_space s) of
        None \<Rightarrow> NaN
      | Some n \<Rightarrow> double (of_int n))"

text \<open>
  \<open>parseInt(x)\<close> of a number reads \<open>String(x)\<close>, and \<open>String\<close> writes the decimal
  of the fewest digits that reads back as \<open>x\<close>. That decimal begins where \<open>x\<close> begins,
  unless the next power of ten, or the next first digit alone, reads back as \<open>x\<close>
  already (\<open>1e+23\<close>). It is written in positional notation when it is at least
  \<open>10\<^sup>-\<^sup>6\<close> and less than \<open>10\<^sup>2\<^sup>1\<close>, and \<open>parseInt\<close> reads its integer part, which is
  that of \<open>x\<close>; otherwise it is written as \<open>d.ddde\<plusminus>n\<close>, and \<open>parseInt\<close> reads the
  first digit \<open>d\<close>.
\<close>

definition shortest_exponent :: "rat \<Rightarrow> int" where
  "shortest_exponent x =
     (let n = floor_log 10 x in
      if round_double (power_of 10 (n + 1)) = x then n + 1 else n)"

definition first_digit :: "rat \<Rightarrow> int" where
  "first_digit x =
     (let n = floor_log 10 x; d = \<lfloor>x / power_of 10 n\<rfloor> in
      if round_double (of_int (d + 1) * power_of 10 n) = x then (if d = 9 then 1 else d + 1)
      else d)"

fun parseInt_number :: "number \<Rightarrow> number" where
  "parseInt_number (Num x) =
     (if x = 0 then Num 0
      else if - 7 < shortest_exponent \<bar>x\<bar> \<and> shortest_exponent \<bar>x\<bar> < 21
      then Num (sgn x * of_int \<lfloor>\<bar>x\<bar>\<rfloor>)
      else Num (sgn x * of_int (first_digit \<bar>x\<bar>)))"
| "parseInt_number x = NaN"

text \<open>\<open>Number(v)\<close> and \<open>parseInt(v)\<close> of a value that is a string or a number.\<close>

fun ToNumber :: "jsval \<Rightarrow> number" where
  "ToNumber (Str s) = StringToNumber s"
| "ToNumber (Number x) = x"

fun parseInt :: "jsval \<Rightarrow> number" where
  "parseInt (Str s) = parseInt_string s"
| "parseInt (Number x) = parseInt_number x"

text \<open>
  \<open>parseFloat(v)\<close>: after leading white space, the longest decimal literal at the head
  of the string, or \<open>Infinity\<close>, with an optional sign; \<open>NaN\<close> when there is none.
\<close>

definition exponent_prefix :: "string \<Rightarrow> int" where
  "exponent_prefix s =
     (case s of
        [] \<Rightarrow> 0
      | c # cs \<Rightarrow>
          (if c = CHR ''e'' \<or> c = CHR ''E'' then
             (case cs of
                [] \<Rightarrow> 0
              | c' # ds \<Rightarrow>
                  (if c' = CHR ''-'' then - digits_val 0 (takeWhile is_digit ds)
                   else if c' = CHR ''+'' then digits_val 0 (takeWhile is_digit ds)
                   else digits_val 0 (takeWhile is_digit cs)))
           else 0))"

definition decimal_prefix :: "string \<Rightarrow> rat option" where
  "decimal_prefix s =
     (let i = takeWhile is_digit s;
          r = dropWhile is_digit s;
          point = (r \<noteq> [] \<and> hd r = CHR ''.'');
          f = (if point then takeWhile is_digit (tl r) else []);
          r' = (if point then dropWhile is_digit (tl r) else r)
      in if i = [] \<and> f = [] then None
         else Some ((of_int (digits_val 0 i) + of_int (digits_val 0 f) / 10 ^ length f)
                    * power_of 10 (exponent_prefix r')))"

definition parseFloat_string :: "string \<Rightarrow> number" where
  "parseFloat_string s =
     (let t = dropWhile js_space s in
      case signed (\<lambda>u. if take 8 u = ''Infinity'' then Some Infinity else None)
             (\<lambda>x. MinusInfinity) t of
        Some x \<Rightarrow> x
      | None \<Rightarrow>
          (case signed decimal_prefix uminus t of
             Some q \<Rightarrow> double q
           | None \<Rightarrow> NaN))"

fun parseFloat :: "jsval \<Rightarrow> number" where
  "parseFloat (Str s) = parseFloat_string s"
| "parseFloat (Number x) = x"

text \<open>
  \<open>v || w\<close> for a value \<open>v\<close> that is a string, a number, or \<open>null\<close> (\<open>None\<close>): the
  empty string, zero, \<open>NaN\<close> and \<open>null\<close> give \<open>w\<close>.
\<close>

definition or_else :: "jsval option \<Rightarrow> jsval \<Rightarrow> jsval" where
  "or_else v w =
     (case v of
        None \<Rightarrow> w
      | Some (Str s) \<Rightarrow> (if s = [] then w else Str s)
      | Some (Number x) \<Rightarrow> (if x = NaN \<or> x = Num 0 then w else Number x))"

section \<open>Primary keys\<close>

text \<open>
  \<open>Model.findByPk(param)\<close>: no row for \<open>null\<close> or \<open>undefined\<close>; a number or a string
  goes into the \<open>where\<close> clause as it is; for any other value the ORM throws. A string
  is compared with the key by the engine (\<open>db_key\<close>).
\<close>

definition by_id :: "row list \<Rightarrow> json \<Rightarrow> row option" where
  "by_id rows v = find (\<lambda>r. map_of r ''id'' = Some v) rows"

definition findByPk :: "env \<Rightarrow> row list \<Rightarrow> json option \<Rightarrow> exn + row option" where
  "findByPk e rows param =
     (case param of
        None \<Rightarrow> Inr None
      | Some JNull \<Rightarrow> Inr None
      | Some (JNum q) \<Rightarrow> Inr (by_id rows (JNum q))
      | Some (JStr s) \<Rightarrow>
          (case db_key e s of
             Inl x \<Rightarrow> Inl x
           | Inr None \<Rightarrow> Inr None
           | Inr (Some q) \<Rightarrow> Inr (by_id rows (JNum q)))
      | Some v \<Rightarrow> Inl (JsError ''Error''))"

text \<open>\<open>error.name\<close> of an exception.\<close>

fun name_of :: "exn \<Rightarrow> string" where
  "name_of (SequelizeValidationError vs) = ''SequelizeValidationError''"
| "name_of (SequelizeForeignKeyConstraintError c) = ''SequelizeForeignKeyConstraintError''"
| "name_of (SequelizeUniqueConstraintError c) = ''SequelizeUniqueConstraintError''"
| "name_of (SequelizeDatabaseError c) = ''SequelizeDatabaseError''"
| "name_of (JsError n) = n"

section \<open>middleware/auth.js\<close>

text \<open>\<open>s.split(sep)\<close> for a separator of one character.\<close>

fun split :: "char \<Rightarrow> string \<Rightarrow> string list" where
  "split sep [] = [[]]"
| "split sep (c # cs) =
     (if c = sep then [] # split sep cs
      else (case split sep cs of
              [] \<Rightarrow> [[c]]
            | w # ws \<Rightarrow> (c # w) # ws))"

text \<open>
  \<open>const token = authHeader && authHeader.split(' ')[1]\<close>; \<open>None\<close> is a falsy token
  (no header, no second piece, or an empty one).
\<close>

definition bearer_token :: "request \<Rightarrow> string option" where
  "bearer_token req =
     (case headers_authorization req of
        None \<Rightarrow> None
      | Some authHeader \<Rightarrow>
          (case split (CHR '' '') authHeader of
             a # token # rest \<Rightarrow> (if token = [] then None else Some token)
           | _ \<Rightarrow> None))"

text \<open>
  A middleware either answers (\<open>Inl\<close>) or calls \<open>next()\<close> with the request, on which it
  may have set \<open>req.user\<close> (\<open>Inr\<close>). Middlewares only read the database.
\<close>

type_synonym middleware = "env \<Rightarrow> db \<Rightarrow> request \<Rightarrow> response + request"

definition authenticateToken :: middleware where
  "authenticateToken e d req =
     (case bearer_token req of
        None \<Rightarrow> Inl (Failure 401 (Text ''Access token required'') ''AUTHENTICATION_ERROR'')
      | Some token \<Rightarrow>
          (case jwt_verify e token of
             Throws name \<Rightarrow>
               (if name = ''TokenExpiredError''
                then Inl (Failure 401 (Text ''Token expired'') ''AUTHENTICATION_ERROR'')
                else Inl (Failure 401 (Text ''Invalid token'') ''AUTHENTICATION_ERROR''))
           | Decoded decoded \<Rightarrow>
               (case findByPk e (users d) (get_prop decoded ''userId'') of
                  Inl x \<Rightarrow>
                    (if name_of x = ''TokenExpiredError''
                     then Inl (Failure 401 (Text ''Token expired'') ''AUTHENTICATION_ERROR'')
                     else Inl (Failure 401 (Text ''Invalid token'') ''AUTHENTICATION_ERROR''))
                | Inr None \<Rightarrow>
                    Inl (Failure 401 (Text ''User not found'') ''AUTHENTICATION_ERROR'')
                | Inr (Some u) \<Rightarrow> Inr (req\<lparr>user := Some u\<rparr>))))"

text \<open>\<open>roles.includes(req.user.role)\<close>.\<close>

definition includes_role :: "string list \<Rightarrow> row \<Rightarrow> bool" where
  "includes_role roles u =
     (case map_of u ''role'' of
        Some (JStr r) \<Rightarrow> r \<in> set roles
      | _ \<Rightarrow> False)"

definition requireRole :: "string list \<Rightarrow> middleware" where
  "requireRole roles e d req =
     (case user req of
        None \<Rightarrow> Inl (Failure 401 (Text ''Authentication required'') ''AUTHENTICATION_ERROR'')
      | Some u \<Rightarrow>
          (if \<not> includes_role roles u
           then Inl (Failure 403 (Text ''Insufficient permissions'') ''AUTHORIZATION_ERROR'')
           else Inr req))"

definition requireAdmin :: middleware where
  "requireAdmin = requireRole [''admin'']"

definition requireUser :: middleware where
  "requireUser = requireRole [''admin'', ''user'']"

text \<open>
  A router runs the middlewares of a route in order; the first that answers ends the
  request, and the handler runs only when all of them have called \<open>next()\<close>.
\<close>

type_synonym handler = "env \<Rightarrow> db \<Rightarrow> request \<Rightarrow> response \<times> db"

fun run_chain :: "middleware list \<Rightarrow> handler \<Rightarrow> handler" where
  "run_chain [] h e d req = h e d req"
| "run_chain (m # ms) h e d req =
     (case m e d req of
        Inl res \<Rightarrow> (res, d)
      | Inr req' \<Rightarrow> run_chain ms h e d req')"

section \<open>middleware/validation.js\<close>

text \<open>
  The Joi schemas, as data. A field has a base type, the values it lets through before
  any check (\<open>allow\<close>), the values it is restricted to (\<open>valid\<close>, \<open>[]\<close> when it is
  not), its rules in the order written, and the messages the schema overrides, by error
  code. \<open>default(...)\<close> is left out: the middleware reads only \<open>error\<close> of
  \<open>schema.validate(req.body)\<close> and drops the validated \<open>value\<close>, so no default ever
  reaches \<open>req.body\<close>.
\<close>

datatype kind = KString | KNumber | KArrayOfString | KDate

datatype rule = RMin rat | RMax rat | REmail | RInteger

record field =
  key :: string
  kind :: kind
  required :: bool
  allow :: "json list"
  valid :: "string list"
  rules :: "rule list"
  messages :: "(string \<times> string) list"

definition joi :: "string \<Rightarrow> kind \<Rightarrow> field" where
  "joi k t = \<lparr>key = k, kind = t, required = False, allow = [], valid = [], rules = [],
     messages = []\<rparr>"

type_synonym schema = "field list"

definition loginSchema :: schema where
  "loginSchema =
    [(joi ''email'' KString)\<lparr>rules := [REmail], required := True,
        messages := [(''string.email'', ''Please provide a valid email address''),
                     (''any.required'', ''Email is required'')]\<rparr>,
     (joi ''password'' KString)\<lparr>rules := [RMin 6], required := True,
        messages := [(''string.min'', ''Password must be at least 6 characters long''),
                     (''any.required'', ''Password is required'')]\<rparr>]"

definition registerSchema :: schema where
  "registerSchema =
    [(joi ''name'' KString)\<lparr>rules := [RMin 2, RMax 255], required := True,
        messages := [(''string.min'', ''Name must be at least 2 characters long''),
                     (''string.max'', ''Name cannot exceed 255 characters''),
                     (''any.required'', ''Name is required'')]\<rparr>,
     (joi ''email'' KString)\<lparr>rules := [REmail], required := True,
        messages := [(''string.email'', ''Please provide a valid email address''),
                     (''any.required'', ''Email is required'')]\<rparr>,
     (joi ''password'' KString)\<lparr>rules := [RMin 6], required := True,
        messages := [(''string.min'', ''Password must be at least 6 characters long''),
                     (''any.required'', ''Password is required'')]\<rparr>,
     (joi ''role'' KString)\<lparr>valid := [''admin'', ''user'']\<rparr>]"

definition customerSchema :: schema where
  "customerSchema =
    [(joi ''name'' KString)\<lparr>rules := [RMin 2, RMax 255], required := True,
        messages := [(''string.min'', ''Name must be at least 2 characters long''),
                     (''string.max'', ''Name cannot exceed 255 characters''),
                     (''any.required'', ''Name is required'')]\<rparr>,
     (joi ''email'' KString)\<lparr>rules := [REmail], allow := [JStr [], JNull],
        messages := [(''string.email'', ''Please provide a valid email address'')]\<rparr>,
     (joi ''phone'' KString)\<lparr>rules := [RMax 50], allow := [JStr [], JNull]\<rparr>,
     (joi ''company'' KString)\<lparr>rules := [RMax 255], allow := [JStr [], JNull]\<rparr>,
     joi ''tags'' KArrayOfString,
     (joi ''notes'' KString)\<lparr>rules := [RMax 1000], allow := [JStr [], JNull]\<rparr>]"

definition leadSchema :: schema where
  "leadSchema =
    [(joi ''title'' KString)\<lparr>rules := [RMin 2, RMax 255], required := True,
        messages := [(''string.min'', ''Title must be at least 2 characters long''),
                     (''string.max'', ''Title cannot exceed 255 characters''),
                     (''any.required'', ''Title is required'')]\<rparr>,
     (joi ''description'' KString)\<lparr>rules := [RMax 2000], allow := [JStr [], JNull]\<rparr>,
     (joi ''stage'' KString)\<lparr>valid := [''lead'', ''qualified'', ''proposal'', ''closed'']\<rparr>,
     (joi ''value'' KNumber)\<lparr>rules := [RMin 0], allow := [JNull]\<rparr>,
     (joi ''customerId'' KNumber)\<lparr>rules := [RInteger], allow := [JNull]\<rparr>,
     (joi ''assignedTo'' KNumber)\<lparr>rules := [RInteger], allow := [JNull]\<rparr>]"

definition taskSchema :: schema where
  "taskSchema =
    [(joi ''title'' KString)\<lparr>rules := [RMin 2, RMax 255], required := True,
        messages := [(''string.min'', ''Title must be at least 2 characters long''),
                     (''string.max'', ''Title cannot exceed 255 characters''),
                     (''any.required'', ''Title is required'')]\<rparr>,
     (joi ''description'' KString)\<lparr>rules := [RMax 1000], allow := [JStr [], JNull]\<rparr>,
     (joi ''status'' KString)\<lparr>valid := [''pending'', ''in-progress'', ''completed'']\<rparr>,
     (joi ''priority'' KString)\<lparr>valid := [''low'', ''medium'', ''high'']\<rparr>,
     (joi ''dueDate'' KDate)\<lparr>allow := [JNull]\<rparr>,
     (joi ''assignedTo'' KNumber)\<lparr>rules := [RInteger], allow := [JNull]\<rparr>,
     (joi ''customerId'' KNumber)\<lparr>rules := [RInteger], allow := [JNull]\<rparr>]"

definition interactionSchema :: schema where
  "interactionSchema =
    [(joi ''customerId'' KNumber)\<lparr>rules := [RInteger], required := True,
        messages := [(''any.required'', ''Customer is required'')]\<rparr>,
     (joi ''type'' KString)\<lparr>valid := [''call'', ''email'', ''meeting'', ''note''],
        required := True,
        messages := [(''any.required'', ''Interaction type is required'')]\<rparr>,
     (joi ''notes'' KString)\<lparr>rules := [RMax 2000], allow := [JStr [], JNull]\<rparr>,
     joi ''date'' KDate]"

definition updateLeadStageSchema :: schema where
  "updateLeadStageSchema =
    [(joi ''stage'' KString)\<lparr>valid := [''lead'', ''qualified'', ''proposal'', ''closed''],
        required := True,
        messages := [(''any.required'', ''Stage is required'')]\<rparr>]"

definition updateTaskStatusSchema :: schema where
  "updateTaskStatusSchema =
    [(joi ''status'' KString)\<lparr>valid := [''pending'', ''in-progress'', ''completed''],
        required := True,
        messages := [(''any.required'', ''Status is required'')]\<rparr>]"

text \<open>
  \<open>error.details[0].message\<close> for an error code at a label: the schema's own message
  when it gives one for the code, the library's template otherwise.
\<close>

definition joi_message :: "field \<Rightarrow> string \<Rightarrow> string \<Rightarrow> errtext" where
  "joi_message f code label =
     (case map_of (messages f) code of
        Some t \<Rightarrow> Text t
      | None \<Rightarrow> Template code label)"

text \<open>The rules of a string, in order; the first that fails is reported.\<close>

fun string_rules :: "env \<Rightarrow> field \<Rightarrow> rule list \<Rightarrow> string \<Rightarrow> errtext option" where
  "string_rules e f [] s = None"
| "string_rules e f (RMin n # rs) s =
     (if rat_of_nat (length s) < n then Some (joi_message f ''string.min'' (key f))
      else string_rules e f rs s)"
| "string_rules e f (RMax n # rs) s =
     (if n < rat_of_nat (length s) then Some (joi_message f ''string.max'' (key f))
      else string_rules e f rs s)"
| "string_rules e f (REmail # rs) s =
     (if \<not> joi_email e s then Some (joi_message f ''string.email'' (key f))
      else string_rules e f rs s)"
| "string_rules e f (RInteger # rs) s = string_rules e f rs s"

fun number_rules :: "field \<Rightarrow> rule list \<Rightarrow> rat \<Rightarrow> errtext option" where
  "number_rules f [] q = None"
| "number_rules f (RMin n # rs) q =
     (if q < n then Some (joi_message f ''number.min'' (key f)) else number_rules f rs q)"
| "number_rules f (RMax n # rs) q =
     (if n < q then Some (joi_message f ''number.max'' (key f)) else number_rules f rs q)"
| "number_rules f (RInteger # rs) q =
     (if of_int \<lfloor>q\<rfloor> \<noteq> q then Some (joi_message f ''number.integer'' (key f))
      else number_rules f rs q)"
| "number_rules f (REmail # rs) q = number_rules f rs q"

text \<open>The items of \<open>Joi.array().items(Joi.string())\<close>: each a non-empty string.\<close>

fun string_items :: "field \<Rightarrow> nat \<Rightarrow> json list \<Rightarrow> errtext option" where
  "string_items f i [] = None"
| "string_items f i (JStr s # vs) =
     (if s = [] then Some (joi_message f ''string.empty'' (key f @ ''['' @ dec i @ '']''))
      else string_items f (Suc i) vs)"
| "string_items f i (v # vs) =
     Some (joi_message f ''string.base'' (key f @ ''['' @ dec i @ '']''))"

text \<open>
  One present value against its field: a number given as a string is converted first;
  an allowed value passes at once; a restricted field takes only its listed values;
  then the base type and the rules.
\<close>

fun coerce :: "env \<Rightarrow> kind \<Rightarrow> json \<Rightarrow> json" where
  "coerce e KNumber (JStr s) = (case joi_number e s of Some q \<Rightarrow> JNum q | None \<Rightarrow> JStr s)"
| "coerce e t v = v"

fun base_check :: "env \<Rightarrow> field \<Rightarrow> kind \<Rightarrow> json \<Rightarrow> errtext option" where
  "base_check e f KString (JStr s) =
     (if s = [] then Some (joi_message f ''string.empty'' (key f))
      else string_rules e f (rules f) s)"
| "base_check e f KString v = Some (joi_message f ''string.base'' (key f))"
| "base_check e f KNumber (JNum q) = number_rules f (rules f) q"
| "base_check e f KNumber v = Some (joi_message f ''number.base'' (key f))"
| "base_check e f KArrayOfString (JArr vs) = string_items f 0 vs"
| "base_check e f KArrayOfString v = Some (joi_message f ''array.base'' (key f))"
| "base_check e f KDate v =
     (if joi_date e v then None else Some (joi_message f ''date.base'' (key f)))"

definition validate_value :: "env \<Rightarrow> field \<Rightarrow> json \<Rightarrow> errtext option" where
  "validate_value e f v0 =
     (let v = coerce e (kind f) v0 in
      if v \<in> set (allow f) then None
      else if valid f \<noteq> [] then
        (if v \<in> JStr ` set (valid f) then None
         else Some (joi_message f ''any.only'' (key f)))
      else base_check e f (kind f) v)"

text \<open>The keys of the schema in order; a missing key fails only when required.\<close>

fun validate_keys :: "env \<Rightarrow> schema \<Rightarrow> obj \<Rightarrow> errtext option" where
  "validate_keys e [] kvs = None"
| "validate_keys e (f # fs) kvs =
     (case map_of kvs (key f) of
        None \<Rightarrow>
          (if required f then Some (joi_message f ''any.required'' (key f))
           else validate_keys e fs kvs)
      | Some v \<Rightarrow>
          (case validate_value e f v of
             Some m \<Rightarrow> Some m
           | None \<Rightarrow> validate_keys e fs kvs))"

text \<open>
  \<open>schema.validate(req.body)\<close> with the default options (\<open>abortEarly\<close>): the first
  error only. After the schema's keys, a key the schema does not know is an error.
\<close>

fun schema_validate :: "env \<Rightarrow> schema \<Rightarrow> json \<Rightarrow> errtext option" where
  "schema_validate e sch (JObj kvs) =
     (case validate_keys e sch kvs of
        Some m \<Rightarrow> Some m
      | None \<Rightarrow>
          (case filter (\<lambda>k. k \<notin> set (map key sch)) (map fst kvs) of
             [] \<Rightarrow> None
           | k # ks \<Rightarrow> Some (Template ''object.unknown'' k)))"
| "schema_validate e sch v = Some (Template ''object.base'' ''value'')"

definition validate :: "schema \<Rightarrow> middleware" where
  "validate sch e d req =
     (case schema_validate e sch (body req) of
        Some m \<Rightarrow> Inl (Failure 400 m ''VALIDATION_ERROR'')
      | None \<Rightarrow> Inr req)"

section \<open>models\<close>

text \<open>
  A model is declared with \<open>sequelize.define\<close>: its table and its attributes. An
  attribute has a name, the column it is stored in (\<open>field\<close>, its name when none is
  given), a type, and the options the source writes. \<open>allowNull\<close> is true unless the
  source says otherwise.
\<close>

datatype dflt = NoDefault | Value json | NOW

record attribute =
  a_name :: string
  a_field :: string
  a_type :: data_type
  primaryKey :: bool
  autoIncrement :: bool
  allowNull :: bool
  unique :: bool
  defaultValue :: dflt
  a_validate :: "validator list"
  references :: "table option"

definition attr :: "string \<Rightarrow> data_type \<Rightarrow> attribute" where
  "attr n t = \<lparr>a_name = n, a_field = n, a_type = t, primaryKey = False,
     autoIncrement = False, allowNull = True, unique = False, defaultValue = NoDefault,
     a_validate = [], references = None\<rparr>"

record model =
  tableName :: string
  m_table :: table
  attributes :: "attribute list"
  beforeCreate :: "env \<Rightarrow> row \<Rightarrow> row"
  beforeUpdate :: "env \<Rightarrow> string list \<Rightarrow> row \<Rightarrow> row"

text \<open>
  models/User.js. The hooks hash the password: \<open>beforeCreate\<close> when there is one,
  \<open>beforeUpdate\<close> when it has changed. (The password is a string wherever the routes
  create or update a user.)
\<close>

definition hash_password :: "env \<Rightarrow> row \<Rightarrow> row" where
  "hash_password e r =
     (case map_of r ''password'' of
        Some (JStr p) \<Rightarrow>
          (if p = [] then r else AList.update ''password'' (JStr (bcrypt_hash e p)) r)
      | _ \<Rightarrow> r)"

definition User :: model where
  "User = \<lparr>tableName = ''users'', m_table = Users,
     attributes =
       [(attr ''id'' INTEGER)\<lparr>primaryKey := True, autoIncrement := True\<rparr>,
        (attr ''name'' STRING)\<lparr>allowNull := False, a_validate := [Len 2 255]\<rparr>,
        (attr ''email'' STRING)\<lparr>allowNull := False, unique := True,
           a_validate := [IsEmail]\<rparr>,
        (attr ''password'' STRING)\<lparr>allowNull := False, a_validate := [Len 6 255]\<rparr>,
        (attr ''role'' (ENUM [''admin'', ''user'']))\<lparr>defaultValue := Value (JStr ''user''),
           allowNull := False\<rparr>],
     beforeCreate = hash_password,
     beforeUpdate = (\<lambda>e changed r. if ''password'' \<in> set changed then hash_password e r else r)\<rparr>"

text \<open>models/Customer (the accessors of \<open>tags\<close> apart).\<close>

definition Customer :: model where
  "Customer = \<lparr>tableName = ''customers'', m_table = Customers,
     attributes =
       [(attr ''id'' INTEGER)\<lparr>primaryKey := True, autoIncrement := True\<rparr>,
        (attr ''name'' STRING)\<lparr>allowNull := False, a_validate := [Len 2 255]\<rparr>,
        (attr ''email'' STRING)\<lparr>a_validate := [IsEmail]\<rparr>,
        (attr ''phone'' STRING)\<lparr>a_validate := [Len 0 50]\<rparr>,
        (attr ''company'' STRING)\<lparr>a_validate := [Len 0 255]\<rparr>,
        (attr ''tags'' TEXT)\<lparr>defaultValue := Value (JStr ''[]'')\<rparr>,
        (attr ''notes'' TEXT)\<lparr>a_validate := [Len 0 1000]\<rparr>],
     beforeCreate = (\<lambda>e r. r),
     beforeUpdate = (\<lambda>e changed r. r)\<rparr>"

text \<open>models/Lead.js.\<close>

definition Lead :: model where
  "Lead = \<lparr>tableName = ''leads'', m_table = Leads,
     attributes =
       [(attr ''id'' INTEGER)\<lparr>primaryKey := True, autoIncrement := True\<rparr>,
        (attr ''title'' STRING)\<lparr>allowNull := False, a_validate := [Len 2 255]\<rparr>,
        (attr ''description'' TEXT)\<lparr>a_validate := [Len 0 2000]\<rparr>,
        (attr ''stage'' (ENUM [''lead'', ''qualified'', ''proposal'', ''closed'']))\<lparr>
           defaultValue := Value (JStr ''lead''), allowNull := False\<rparr>,
        (attr ''value'' (DECIMAL 10 2))\<lparr>a_validate := [Min 0]\<rparr>,
        (attr ''customer_id'' INTEGER)\<lparr>allowNull := False, references := Some Customers\<rparr>,
        (attr ''assigned_to'' INTEGER)\<lparr>allowNull := True, references := Some Users\<rparr>],
     beforeCreate = (\<lambda>e r. r),
     beforeUpdate = (\<lambda>e changed r. r)\<rparr>"

text \<open>models/Task.js.\<close>

definition Task :: model where
  "Task = \<lparr>tableName = ''tasks'', m_table = Tasks,
     attributes =
       [(attr ''id'' INTEGER)\<lparr>primaryKey := True, autoIncrement := True\<rparr>,
        (attr ''title'' STRING)\<lparr>allowNull := False, a_validate := [Len 2 255]\<rparr>,
        (attr ''description'' TEXT)\<lparr>a_validate := [Len 0 1000]\<rparr>,
        (attr ''status'' (ENUM [''pending'', ''in-progress'', ''completed'']))\<lparr>
           defaultValue := Value (JStr ''pending''), allowNull := False\<rparr>,
        (attr ''priority'' (ENUM [''low'', ''medium'', ''high'']))\<lparr>
           defaultValue := Value (JStr ''medium''), allowNull := False\<rparr>,
        (attr ''dueDate'' DATEONLY)\<lparr>allowNull := True, a_field := ''due_date'',
           a_validate := [IsDate]\<rparr>,
        (attr ''assignedTo'' INTEGER)\<lparr>allowNull := True, a_field := ''assigned_to'',
           references := Some Users\<rparr>,
        (attr ''customerId'' INTEGER)\<lparr>allowNull := True, a_field := ''customer_id'',
           references := Some Customers\<rparr>],
     beforeCreate = (\<lambda>e r. r),
     beforeUpdate = (\<lambda>e changed r. r)\<rparr>"

text \<open>models/Interaction.js.\<close>

definition Interaction :: model where
  "Interaction = \<lparr>tableName = ''interactions'', m_table = Interactions,
     attributes =
       [(attr ''id'' INTEGER)\<lparr>primaryKey := True, autoIncrement := True\<rparr>,
        (attr ''customer_id'' INTEGER)\<lparr>allowNull := False, references := Some Customers\<rparr>,
        (attr ''type'' (ENUM [''call'', ''email'', ''meeting'', ''note'']))\<lparr>
           allowNull := False\<rparr>,
        (attr ''notes'' TEXT)\<lparr>a_validate := [Len 0 2000]\<rparr>,
        (attr ''date'' DATE)\<lparr>defaultValue := NOW, allowNull := False\<rparr>,
        (attr ''created_by'' INTEGER)\<lparr>allowNull := True, references := Some Users\<rparr>],
     beforeCreate = (\<lambda>e r. r),
     beforeUpdate = (\<lambda>e changed r. r)\<rparr>"

text \<open>
  models/index: the \<open>hasMany\<close> associations, each with its source table, its target
  model and its \<open>foreignKey\<close> (a column of the target). None of them passes
  \<open>onDelete\<close>.
\<close>

record has_many =
  source :: table
  target :: model
  foreignKey :: string

definition associations :: "has_many list" where
  "associations =
    [\<lparr>source = Users, target = Lead, foreignKey = ''assigned_to''\<rparr>,
     \<lparr>source = Users, target = Task, foreignKey = ''assigned_to''\<rparr>,
     \<lparr>source = Users, target = Interaction, foreignKey = ''created_by''\<rparr>,
     \<lparr>source = Customers, target = Lead, foreignKey = ''customer_id''\<rparr>,
     \<lparr>source = Customers, target = Task, foreignKey = ''customer_id''\<rparr>,
     \<lparr>source = Customers, target = Interaction, foreignKey = ''customer_id''\<rparr>]"

section \<open>The ORM\<close>

text \<open>
  What the calls of the routes do, as the ORM documents them. The tables of a database
  state, read and written by table.
\<close>

fun table_rows :: "table \<Rightarrow> db \<Rightarrow> row list" where
  "table_rows Users d = users d"
| "table_rows Customers d = customers d"
| "table_rows Leads d = leads d"
| "table_rows Tasks d = tasks d"
| "table_rows Interactions d = interactions d"

fun put_rows :: "table \<Rightarrow> row list \<Rightarrow> db \<Rightarrow> db" where
  "put_rows Users rs d = d\<lparr>users := rs\<rparr>"
| "put_rows Customers rs d = d\<lparr>customers := rs\<rparr>"
| "put_rows Leads rs d = d\<lparr>leads := rs\<rparr>"
| "put_rows Tasks rs d = d\<lparr>tasks := rs\<rparr>"
| "put_rows Interactions rs d = d\<lparr>interactions := rs\<rparr>"

fun table_seq :: "table \<Rightarrow> db \<Rightarrow> nat" where
  "table_seq Users d = users_seq d"
| "table_seq Customers d = customers_seq d"
| "table_seq Leads d = leads_seq d"
| "table_seq Tasks d = tasks_seq d"
| "table_seq Interactions d = interactions_seq d"

fun put_seq :: "table \<Rightarrow> nat \<Rightarrow> db \<Rightarrow> db" where
  "put_seq Users n d = d\<lparr>users_seq := n\<rparr>"
| "put_seq Customers n d = d\<lparr>customers_seq := n\<rparr>"
| "put_seq Leads n d = d\<lparr>leads_seq := n\<rparr>"
| "put_seq Tasks n d = d\<lparr>tasks_seq := n\<rparr>"
| "put_seq Interactions n d = d\<lparr>interactions_seq := n\<rparr>"

text \<open>
  \<open>Model.build(values)\<close>: a key of \<open>values\<close> that is not an attribute of the model is
  dropped; an attribute without a value takes its default, when it has one.
\<close>

definition default_of :: "env \<Rightarrow> attribute \<Rightarrow> json option" where
  "default_of e a =
     (case defaultValue a of
        NoDefault \<Rightarrow> None
      | Value v \<Rightarrow> Some v
      | NOW \<Rightarrow> Some (JNum (now e)))"

definition build :: "env \<Rightarrow> model \<Rightarrow> obj \<Rightarrow> row" where
  "build e m values =
     concat (map (\<lambda>a.
       (case map_of values (a_name a) of
          Some v \<Rightarrow> [(a_name a, v)]
        | None \<Rightarrow>
            (case default_of e a of
               Some v \<Rightarrow> [(a_name a, v)]
             | None \<Rightarrow> []))) (attributes m))"

text \<open>
  The validation of an instance, over the attributes named in \<open>names\<close>: an attribute that
  forbids null and has none or a null value (the auto-increment key apart), and an
  attribute with a value that one of its validators refuses.
\<close>

definition is_null :: "json option \<Rightarrow> bool" where
  "is_null v = (v = None \<or> v = Some JNull)"

definition violations :: "env \<Rightarrow> attribute \<Rightarrow> row \<Rightarrow> violation list" where
  "violations e a r =
     (let v = map_of r (a_name a) in
        (if \<not> allowNull a \<and> \<not> autoIncrement a \<and> is_null v
         then [NotNull (a_name a)] else [])
      @ (case v of
           None \<Rightarrow> []
         | Some w \<Rightarrow>
             (if w \<noteq> JNull \<and> \<not> list_all (\<lambda>c. validator_ok e c w) (a_validate a)
              then [ValidatorFailed (a_name a)] else [])))"

definition validate_instance :: "env \<Rightarrow> model \<Rightarrow> string list \<Rightarrow> row \<Rightarrow> violation list" where
  "validate_instance e m names r =
     concat (map (\<lambda>a. violations e a r)
       (filter (\<lambda>a. a_name a \<in> set names) (attributes m)))"

text \<open>
  What the database checks when columns of a row are written (the attributes named in
  \<open>names\<close>): their types, their foreign keys (a reference that is not null names an
  existing row) and the unique ones among them.
\<close>

definition written :: "model \<Rightarrow> string list \<Rightarrow> attribute list" where
  "written m names = filter (\<lambda>a. a_name a \<in> set names) (attributes m)"

definition type_errors :: "env \<Rightarrow> model \<Rightarrow> string list \<Rightarrow> row \<Rightarrow> string list" where
  "type_errors e m names r =
     map a_field (filter (\<lambda>a.
       (case map_of r (a_name a) of
          None \<Rightarrow> False
        | Some v \<Rightarrow> v \<noteq> JNull \<and> \<not> db_accepts e (a_type a) v)) (written m names))"

definition fk_errors :: "env \<Rightarrow> model \<Rightarrow> string list \<Rightarrow> db \<Rightarrow> row \<Rightarrow> string list" where
  "fk_errors e m names d r =
     map a_field (filter (\<lambda>a.
       (case references a of
          None \<Rightarrow> False
        | Some t \<Rightarrow>
            \<not> is_null (map_of r (a_name a))
            \<and> (case findByPk e (table_rows t d) (map_of r (a_name a)) of
                  Inr (Some x) \<Rightarrow> False
                | _ \<Rightarrow> True))) (written m names))"

definition unique_errors :: "model \<Rightarrow> string list \<Rightarrow> row list \<Rightarrow> row \<Rightarrow> string list" where
  "unique_errors m names others r =
     map a_field (filter (\<lambda>a.
       (unique a \<or> primaryKey a)
       \<and> \<not> is_null (map_of r (a_name a))
       \<and> list_ex (\<lambda>r'. map_of r' (a_name a) = map_of r (a_name a)) others) (written m names))"

definition write_check ::
  "env \<Rightarrow> model \<Rightarrow> string list \<Rightarrow> db \<Rightarrow> row list \<Rightarrow> row \<Rightarrow> exn option" where
  "write_check e m names d others r =
     (case type_errors e m names r of
        c # cs \<Rightarrow> Some (SequelizeDatabaseError c)
      | [] \<Rightarrow>
          (case unique_errors m names others r of
             c # cs \<Rightarrow> Some (SequelizeUniqueConstraintError c)
           | [] \<Rightarrow>
               (case fk_errors e m names d r of
                  c # cs \<Rightarrow> Some (SequelizeForeignKeyConstraintError c)
                | [] \<Rightarrow> None)))"

text \<open>
  \<open>Model.create(values)\<close>: build, validate every attribute, run \<open>beforeCreate\<close>, set
  the timestamps and the key, insert. An exception leaves the database as it was.
\<close>

definition create :: "env \<Rightarrow> model \<Rightarrow> obj \<Rightarrow> db \<Rightarrow> exn + (row \<times> db)" where
  "create e m values d =
     (let inst = build e m values in
      case validate_instance e m (map a_name (attributes m)) inst of
        v # vs \<Rightarrow> Inl (SequelizeValidationError (v # vs))
      | [] \<Rightarrow>
          (let hooked = beforeCreate m e inst;
               keyed = (if is_null (map_of hooked ''id'')
                        then (''id'', JNum (of_nat (Suc (table_seq (m_table m) d))))
                             # AList.delete ''id'' hooked
                        else hooked);
               r = keyed @ [(''createdAt'', JNum (now e)), (''updatedAt'', JNum (now e))]
           in case write_check e m (map a_name (attributes m)) d (table_rows (m_table m) d) r of
                Some x \<Rightarrow> Inl x
              | None \<Rightarrow>
                  Inr (r, put_seq (m_table m) (Suc (table_seq (m_table m) d))
                            (put_rows (m_table m) (table_rows (m_table m) d @ [r]) d))))"

text \<open>
  \<open>instance.update(values)\<close>, with the \<open>undefined\<close> values already left out of
  \<open>values\<close>: the keys that are attributes are set (never the primary key); when nothing
  has changed nothing is written; otherwise the attributes that were set are validated,
  \<open>beforeUpdate\<close> runs, and the changed columns are written with a new \<open>updatedAt\<close>.
\<close>

definition set_values :: "model \<Rightarrow> obj \<Rightarrow> obj" where
  "set_values m values =
     filter (\<lambda>(k, v). list_ex (\<lambda>a. a_name a = k \<and> \<not> primaryKey a) (attributes m)) values"

definition same_id :: "row \<Rightarrow> row \<Rightarrow> bool" where
  "same_id r r' = (map_of r ''id'' = map_of r' ''id'')"

definition update :: "env \<Rightarrow> model \<Rightarrow> row \<Rightarrow> obj \<Rightarrow> db \<Rightarrow> exn + (row \<times> db)" where
  "update e m r values d =
     (let vals = set_values m values;
          changed = map fst (filter (\<lambda>(k, v). map_of r k \<noteq> Some v) vals);
          r1 = foldl (\<lambda>acc (k, v). AList.update k v acc) r vals
      in if changed = [] then Inr (r, d)
         else
           (case validate_instance e m (map fst vals) r1 of
              v # vs \<Rightarrow> Inl (SequelizeValidationError (v # vs))
            | [] \<Rightarrow>
                (let r2 = AList.update ''updatedAt'' (JNum (now e)) (beforeUpdate m e changed r1);
                     others = filter (\<lambda>r'. \<not> same_id r' r) (table_rows (m_table m) d)
                 in case write_check e m changed d others r2 of
                      Some x \<Rightarrow> Inl x
                    | None \<Rightarrow>
                        Inr (r2, put_rows (m_table m)
                               (map (\<lambda>r'. if same_id r' r then r2 else r')
                                  (table_rows (m_table m) d)) d))))"

text \<open>
  \<open>instance.destroy()\<close> deletes the row; the foreign keys that refer to it then act.
  A \<open>hasMany\<close> association without \<open>onDelete\<close> gives its foreign key
  \<open>ON DELETE SET NULL\<close> when the key allows null and \<open>ON DELETE CASCADE\<close> when it
  does not; the key is the target's attribute of the name \<open>foreignKey\<close>, or a new
  attribute that allows null when the target has none of that name.
\<close>

datatype on_delete = CASCADE | SET_NULL

definition onDelete :: "has_many \<Rightarrow> on_delete" where
  "onDelete a =
     (case find (\<lambda>x. a_name x = foreignKey a) (attributes (target a)) of
        Some x \<Rightarrow> (if allowNull x then SET_NULL else CASCADE)
      | None \<Rightarrow> SET_NULL)"

text \<open>The key of a row that holds a column: the attribute stored in it.\<close>

definition column_key :: "model \<Rightarrow> string \<Rightarrow> string" where
  "column_key m c =
     (case find (\<lambda>x. a_field x = c) (attributes m) of
        Some x \<Rightarrow> a_name x
      | None \<Rightarrow> c)"

definition refers :: "string \<Rightarrow> json \<Rightarrow> row \<Rightarrow> bool" where
  "refers k idv r = (map_of r k = Some idv)"

definition apply_on_delete :: "has_many \<Rightarrow> json \<Rightarrow> db \<Rightarrow> db" where
  "apply_on_delete a idv d =
     (let t = m_table (target a);
          k = column_key (target a) (foreignKey a)
      in case onDelete a of
           CASCADE \<Rightarrow> put_rows t (filter (\<lambda>r. \<not> refers k idv r) (table_rows t d)) d
         | SET_NULL \<Rightarrow>
             put_rows t (map (\<lambda>r. if refers k idv r then AList.update k JNull r else r)
                           (table_rows t d)) d)"

definition destroy :: "table \<Rightarrow> row \<Rightarrow> db \<Rightarrow> db" where
  "destroy t r d =
     (case map_of r ''id'' of
        None \<Rightarrow> d
      | Some idv \<Rightarrow>
          (let d1 = put_rows t (filter (\<lambda>r'. map_of r' ''id'' \<noteq> Some idv) (table_rows t d)) d
           in foldr (\<lambda>a. apply_on_delete a idv) (filter (\<lambda>a. source a = t) associations) d1))"

section \<open>Shared by the routes\<close>

text \<open>
  The key of a \<open>where\<close> or \<open>order\<close> option names an attribute of the model (the
  timestamps among them) or is taken for the name of a column, and the engine raises
  when the table has no such column.
\<close>

fun cond_keys :: "cond \<Rightarrow> string list" where
  "cond_keys (Eq k v) = [k]"
| "cond_keys (ILike k p) = [k]"
| "cond_keys (Overlap k vs) = [k]"
| "cond_keys (Or cs) = concat (map cond_keys cs)"

definition column_names :: "model \<Rightarrow> string list" where
  "column_names m =
     map a_name (attributes m) @ [''createdAt'', ''updatedAt'']
     @ map a_field (attributes m) @ [''created_at'', ''updated_at'']"

definition unknown_columns :: "model \<Rightarrow> cond list \<Rightarrow> (string \<times> direction) list \<Rightarrow> string list" where
  "unknown_columns m wh ord =
     filter (\<lambda>k. k \<notin> set (column_names m)) (concat (map cond_keys wh) @ map fst ord)"

text \<open>
  \<open>LIMIT\<close> and \<open>OFFSET\<close>, which the ORM writes into the statement as \<open>String\<close>
  writes them. \<open>NaN\<close> and \<open>Infinity\<close> are an error there, and so is an integer outside
  64 bits (and a fraction, which \<open>parseInt\<close> never gives). A negative \<open>LIMIT\<close> or
  \<open>OFFSET\<close> is an error in PostgreSQL; SQLite reads a negative limit as none and a
  negative offset as zero. (From \<open>2\<^sup>5\<^sup>3\<close> on, \<open>String\<close> may write another integer than
  the number, one that reads back as it; the rows taken are those of the number here.)
\<close>

definition sql_integer :: "number \<Rightarrow> int option" where
  "sql_integer x =
     (case x of
        Num q \<Rightarrow>
          (if of_int \<lfloor>q\<rfloor> = q \<and> - (2 ^ 63) \<le> q \<and> q < 2 ^ 63 then Some \<lfloor>q\<rfloor> else None)
      | _ \<Rightarrow> None)"

definition limit_offset :: "dialect \<Rightarrow> number \<Rightarrow> number \<Rightarrow> row list \<Rightarrow> exn + row list" where
  "limit_offset dia limit offset ms =
     (case (sql_integer limit, sql_integer offset) of
        (Some l, Some off) \<Rightarrow>
          (if l < 0 \<or> off < 0 then
             (case dia of
                Postgres \<Rightarrow> Inl (SequelizeDatabaseError ''LIMIT'')
              | Sqlite \<Rightarrow>
                  Inr ((if l < 0 then (\<lambda>xs. xs) else take (nat l)) (drop (nat off) ms)))
           else Inr (take (nat l) (drop (nat off) ms)))
      | _ \<Rightarrow> Inl (SequelizeDatabaseError ''LIMIT''))"

text \<open>
  \<open>findAndCountAll\<close>: the count of the rows the \<open>where\<close> clause selects, and the
  rows of the page.
\<close>

definition findAndCountAll ::
  "env \<Rightarrow> model \<Rightarrow> cond list \<Rightarrow> (string \<times> direction) list \<Rightarrow> number \<Rightarrow> number \<Rightarrow> db
    \<Rightarrow> exn + (nat \<times> row list)" where
  "findAndCountAll e m wh ord limit offset d =
     (case unknown_columns m wh ord of
        c # cs \<Rightarrow> Inl (SequelizeDatabaseError c)
      | [] \<Rightarrow>
          (case db_select e (m_table m) wh ord (table_rows (m_table m) d) of
             Inl x \<Rightarrow> Inl x
           | Inr ms \<Rightarrow>
               (case limit_offset (dialect e) limit offset ms of
                  Inl x \<Rightarrow> Inl x
                | Inr rs \<Rightarrow> Inr (length ms, rs))))"

definition findOne :: "env \<Rightarrow> model \<Rightarrow> cond list \<Rightarrow> db \<Rightarrow> exn + row option" where
  "findOne e m wh d =
     (case unknown_columns m wh [] of
        c # cs \<Rightarrow> Inl (SequelizeDatabaseError c)
      | [] \<Rightarrow>
          (case db_select e (m_table m) wh [] (table_rows (m_table m) d) of
             Inl x \<Rightarrow> Inl x
           | Inr [] \<Rightarrow> Inr None
           | Inr (r # rs) \<Rightarrow> Inr (Some r)))"

text \<open>
  \<open>const { page = 1, limit = 10 } = req.query\<close>: the string of the query, or the
  default when the query has none.
\<close>

definition query_or :: "request \<Rightarrow> string \<Rightarrow> rat \<Rightarrow> jsval" where
  "query_or req k dflt =
     (case map_of (query req) k of
        None \<Rightarrow> Number (Num dflt)
      | Some v \<Rightarrow> Str v)"

text \<open>\<open>(page - 1) * limit\<close>.\<close>

definition offset_of :: "jsval \<Rightarrow> jsval \<Rightarrow> number" where
  "offset_of page limit = js_times (js_minus (ToNumber page) (Num 1)) (ToNumber limit)"

text \<open>
  The pagination block:
  \<open>{ page: parseInt(page), limit: parseInt(limit), total: count, pages: Math.ceil(count / limit) }\<close>.
\<close>

definition total_pages :: "nat \<Rightarrow> jsval \<Rightarrow> json" where
  "total_pages count limit =
     json_of (Math_ceil (js_divide (double (of_nat count)) (ToNumber limit)))"

definition pagination :: "jsval \<Rightarrow> jsval \<Rightarrow> nat \<Rightarrow> json" where
  "pagination page limit count =
     JObj [(''page'', json_of (parseInt page)),
           (''limit'', json_of (parseInt limit)),
           (''total'', json_of (double (of_nat count))),
           (''pages'', total_pages count limit)]"

text \<open>
  The aggregates of the reports, read with \<open>raw: true\<close>. \<open>COUNT(id)\<close> counts the rows
  with a key and \<open>COUNT(CASE WHEN col = 'v' THEN 1 END)\<close> those with the value. The
  driver gives a count as a number with SQLite and as a string of digits with
  PostgreSQL. \<open>GROUP BY col\<close> gives a group for each value of the column (the order of
  the groups is the engine's; the first rows of the groups give it here).
\<close>

definition driver_count :: "env \<Rightarrow> nat \<Rightarrow> jsval" where
  "driver_count e n =
     (case dialect e of
        Sqlite \<Rightarrow> Number (double (of_nat n))
      | Postgres \<Rightarrow> Str (dec n))"

definition count_id :: "env \<Rightarrow> row list \<Rightarrow> jsval" where
  "count_id e rs = driver_count e (length (filter (\<lambda>r. \<not> is_null (map_of r ''id'')) rs))"

definition count_when :: "env \<Rightarrow> string \<Rightarrow> string \<Rightarrow> row list \<Rightarrow> jsval" where
  "count_when e k v rs = driver_count e (length (filter (\<lambda>r. map_of r k = Some (JStr v)) rs))"

definition column :: "string \<Rightarrow> row \<Rightarrow> json" where
  "column k r = (case map_of r k of None \<Rightarrow> JNull | Some v \<Rightarrow> v)"

definition group_by :: "string \<Rightarrow> row list \<Rightarrow> (json \<times> row list) list" where
  "group_by k rs =
     map (\<lambda>v. (v, filter (\<lambda>r. column k r = v) rs)) (remdups (map (column k) rs))"

text \<open>
  \<open>pipeline[stat.stage] = parseInt(stat.count)\<close> for each group, on an object that has
  the four stages at zero: the key is the stage, a string (or \<open>null\<close>, written
  \<open>null\<close>, for a row without one).
\<close>

definition property_key :: "json \<Rightarrow> string" where
  "property_key v = (case v of JStr s \<Rightarrow> s | _ \<Rightarrow> ''null'')"

definition by_stage :: "(json \<times> jsval) list \<Rightarrow> obj" where
  "by_stage stats =
     foldl (\<lambda>acc (stage, count). AList.update (property_key stage) (json_of (parseInt count)) acc)
       [(''lead'', JNum 0), (''qualified'', JNum 0), (''proposal'', JNum 0), (''closed'', JNum 0)]
       stats"

text \<open>
  \<open>total > 0 ? (closed / total) * 100 : 0\<close>, on counts as the driver gives them.
\<close>

definition conversionRate :: "jsval \<Rightarrow> jsval \<Rightarrow> number" where
  "conversionRate closedLeads totalLeads =
     (if positive (ToNumber totalLeads)
      then js_times (js_divide (ToNumber closedLeads) (ToNumber totalLeads)) (Num 100)
      else Num 0)"

text \<open>A query parameter that is present and not empty (\<open>if (stage) ...\<close>).\<close>

definition truthy :: "request \<Rightarrow> string \<Rightarrow> string option" where
  "truthy req k =
     (case map_of (query req) k of
        None \<Rightarrow> None
      | Some v \<Rightarrow> (if v = [] then None else Some v))"

definition eq_filter :: "request \<Rightarrow> string \<Rightarrow> cond list" where
  "eq_filter req k = (case truthy req k of None \<Rightarrow> [] | Some v \<Rightarrow> [Eq k (JStr v)])"

text \<open>
  An \<open>include\<close> of a \<open>belongsTo\<close> association: the row the foreign key names, cut
  down to the listed attributes, under the alias; \<open>null\<close> when there is none.
\<close>

definition pick :: "string list \<Rightarrow> row \<Rightarrow> row" where
  "pick ks r = concat (map (\<lambda>k. case map_of r k of None \<Rightarrow> [] | Some v \<Rightarrow> [(k, v)]) ks)"

definition with_include :: "row list \<Rightarrow> string \<Rightarrow> string \<Rightarrow> string list \<Rightarrow> row \<Rightarrow> row" where
  "with_include rs fk alias ks r =
     r @ [(alias, (case map_of r fk of
                     None \<Rightarrow> JNull
                   | Some v \<Rightarrow>
                       (case by_id rs v of
                          None \<Rightarrow> JNull
                        | Some x \<Rightarrow> JObj (pick ks x))))]"

text \<open>
  models/User.js, \<open>User.prototype.toJSON\<close>: a copy of the values without
  \<open>password\<close>. \<open>res.json\<close> calls it on every \<open>User\<close> instance it writes.
\<close>

definition toJSON :: "row \<Rightarrow> row" where
  "toJSON r = AList.delete ''password'' r"

text \<open>\<open>attributes: { exclude: [...] }\<close>: the columns are not read.\<close>

definition exclude :: "string list \<Rightarrow> row \<Rightarrow> row" where
  "exclude ks r = foldr AList.delete ks r"

section \<open>routes/users.js\<close>

text \<open>GET /api/users.\<close>

definition users_list :: handler where
  "users_list e d req =
     (let page = query_or req ''page'' 1; limit = query_or req ''limit'' 10;
          offset = offset_of page limit in
      case findAndCountAll e User [] [(''createdAt'', DESC)] (parseInt limit) (parseInt (Number offset)) d of
        Inl x \<Rightarrow> (errorResponse (Message x) ''DATABASE_ERROR'' 500, d)
      | Inr (count, rs) \<Rightarrow>
          (successResponse
             (JObj [(''users'', JArr (map (\<lambda>r. JObj (toJSON (exclude [''password''] r))) rs)),
                    (''pagination'', pagination page limit count)])
             ''Success'' 200, d))"

text \<open>GET /api/users/:id.\<close>

definition users_get :: handler where
  "users_get e d req =
     (case findByPk e (users d) (Some (JStr (params_id req))) of
        Inl x \<Rightarrow> (errorResponse (Message x) ''DATABASE_ERROR'' 500, d)
      | Inr None \<Rightarrow> (errorResponse (Text ''User not found'') ''NOT_FOUND'' 404, d)
      | Inr (Some u) \<Rightarrow>
          (successResponse (JObj [(''user'', JObj (toJSON (exclude [''password''] u)))])
             ''Success'' 200, d))"

text \<open>
  PUT /api/users/:id. \<open>const { name, email, role } = req.body\<close>, then
  \<open>user.update({ name, email, role })\<close>: a property the body lacks is \<open>undefined\<close>
  and is left out of the update.
\<close>

definition users_update :: handler where
  "users_update e d req =
     (case findByPk e (users d) (Some (JStr (params_id req))) of
        Inl x \<Rightarrow> (errorResponse (Message x) ''DATABASE_ERROR'' 500, d)
      | Inr None \<Rightarrow> (errorResponse (Text ''User not found'') ''NOT_FOUND'' 404, d)
      | Inr (Some u) \<Rightarrow>
          (case update e User u
                  (concat (map (\<lambda>k. case get_prop (body req) k of
                                        None \<Rightarrow> []
                                      | Some v \<Rightarrow> [(k, v)]) [''name'', ''email'', ''role''])) d of
             Inl x \<Rightarrow> (errorResponse (Message x) ''DATABASE_ERROR'' 500, d)
           | Inr (u', d') \<Rightarrow>
               (successResponse (JObj [(''user'', JObj (toJSON u'))])
                  ''User updated successfully'' 200, d')))"

text \<open>
  DELETE /api/users/:id. The guard is \<open>parseInt(id) === req.user.id\<close>; the user is
  then looked up with \<open>id\<close> as the path carries it.
\<close>

definition users_delete :: handler where
  "users_delete e d req =
     (case user req of
        None \<Rightarrow> (errorResponse (Message (JsError ''TypeError'')) ''DATABASE_ERROR'' 500, d)
      | Some me \<Rightarrow>
          (if (case parseInt (Str (params_id req)) of
                 Num n \<Rightarrow> map_of me ''id'' = Some (JNum n)
               | _ \<Rightarrow> False)
           then (errorResponse (Text ''Cannot delete your own account'') ''VALIDATION_ERROR'' 400, d)
           else
             (case findByPk e (users d) (Some (JStr (params_id req))) of
                Inl x \<Rightarrow> (errorResponse (Message x) ''DATABASE_ERROR'' 500, d)
              | Inr None \<Rightarrow> (errorResponse (Text ''User not found'') ''NOT_FOUND'' 404, d)
              | Inr (Some u) \<Rightarrow>
                  (successResponse (JObj []) ''User deleted successfully'' 200,
                   destroy Users u d))))"

section \<open>routes/auth.js\<close>

text \<open>\<open>jwt.sign({ userId: user.id, role: user.role }, secret, { expiresIn: '24h' })\<close>.\<close>

definition generateToken :: "env \<Rightarrow> row \<Rightarrow> string" where
  "generateToken e u =
     jwt_sign e (JObj
       ((case map_of u ''id'' of None \<Rightarrow> [] | Some v \<Rightarrow> [(''userId'', v)])
        @ (case map_of u ''role'' of None \<Rightarrow> [] | Some v \<Rightarrow> [(''role'', v)])))"

definition body_values :: "request \<Rightarrow> string list \<Rightarrow> obj" where
  "body_values req ks =
     concat (map (\<lambda>k. case get_prop (body req) k of None \<Rightarrow> [] | Some v \<Rightarrow> [(k, v)]) ks)"

text \<open>POST /api/auth/register (behind \<open>validate(registerSchema)\<close>).\<close>

definition auth_register :: handler where
  "auth_register e d req =
     (case get_prop (body req) ''email'' of
        None \<Rightarrow> (errorResponse (Message (JsError ''Error'')) ''DATABASE_ERROR'' 500, d)
      | Some email \<Rightarrow>
          (case findOne e User [Eq ''email'' email] d of
             Inl x \<Rightarrow> (errorResponse (Message x) ''DATABASE_ERROR'' 500, d)
           | Inr (Some existingUser) \<Rightarrow>
               (errorResponse (Text ''User with this email already exists'')
                  ''DUPLICATE_ENTRY'' 409, d)
           | Inr None \<Rightarrow>
               (case create e User
                       (body_values req [''name'', ''email'', ''password'']
                        @ [(''role'', (case get_prop (body req) ''role'' of
                                         None \<Rightarrow> JStr ''user''
                                       | Some r \<Rightarrow> r))]) d of
                  Inl x \<Rightarrow> (errorResponse (Message x) ''DATABASE_ERROR'' 500, d)
                | Inr (u, d') \<Rightarrow>
                    (successResponse
                       (JObj [(''user'', JObj (toJSON u)),
                              (''token'', JStr (generateToken e u))])
                       ''User registered successfully'' 201, d'))))"

text \<open>POST /api/auth/login (behind \<open>validate(loginSchema)\<close>).\<close>

definition auth_login :: handler where
  "auth_login e d req =
     (case get_prop (body req) ''email'' of
        None \<Rightarrow> (errorResponse (Message (JsError ''Error'')) ''DATABASE_ERROR'' 500, d)
      | Some email \<Rightarrow>
          (case findOne e User [Eq ''email'' email] d of
             Inl x \<Rightarrow> (errorResponse (Message x) ''DATABASE_ERROR'' 500, d)
           | Inr None \<Rightarrow>
               (errorResponse (Text ''Invalid credentials'') ''AUTHENTICATION_ERROR'' 401, d)
           | Inr (Some u) \<Rightarrow>
               (case (get_prop (body req) ''password'', map_of u ''password'') of
                  (Some (JStr p), Some (JStr h)) \<Rightarrow>
                    (if \<not> bcrypt_compare e p h
                     then (errorResponse (Text ''Invalid credentials'')
                             ''AUTHENTICATION_ERROR'' 401, d)
                     else (successResponse
                             (JObj [(''user'', JObj (toJSON u)),
                                    (''token'', JStr (generateToken e u))])
                             ''Login successful'' 200, d))
                | _ \<Rightarrow>
                    (errorResponse (Message (JsError ''Error'')) ''DATABASE_ERROR'' 500, d))))"

text \<open>GET /api/auth/me (behind \<open>authenticateToken\<close>).\<close>

definition auth_me :: handler where
  "auth_me e d req =
     (case user req of
        None \<Rightarrow> (errorResponse (Message (JsError ''TypeError'')) ''DATABASE_ERROR'' 500, d)
      | Some u \<Rightarrow> (successResponse (JObj [(''user'', JObj (toJSON u))]) ''Success'' 200, d))"

section \<open>routes/leads\<close>

definition lead_includes :: "db \<Rightarrow> row \<Rightarrow> row" where
  "lead_includes d r =
     with_include (users d) ''assigned_to'' ''assignedUser'' [''id'', ''name'', ''email'']
       (with_include (customers d) ''customer_id'' ''customer''
          [''id'', ''name'', ''email'', ''company''] r)"

text \<open>GET /api/leads.\<close>

definition leads_list :: handler where
  "leads_list e d req =
     (let page = query_or req ''page'' 1; limit = query_or req ''limit'' 10;
          offset = offset_of page limit;
          whereClause = eq_filter req ''stage'' @ eq_filter req ''customerId''
                        @ eq_filter req ''assignedTo'' in
      case findAndCountAll e Lead whereClause [(''createdAt'', DESC)] (parseInt limit) (parseInt (Number offset)) d of
        Inl x \<Rightarrow> (errorResponse (Message x) ''DATABASE_ERROR'' 500, d)
      | Inr (count, rs) \<Rightarrow>
          (successResponse
             (JObj [(''leads'', JArr (map (\<lambda>r. JObj (lead_includes d r)) rs)),
                    (''pagination'', pagination page limit count)])
             ''Success'' 200, d))"

text \<open>
  POST /api/leads (behind \<open>validate(leadSchema)\<close>): \<open>Lead.create(req.body)\<close>, then
  the lead is read again with its customer and its assigned user.
\<close>

definition leads_create :: handler where
  "leads_create e d req =
     (case create e Lead (case body req of JObj kvs \<Rightarrow> kvs | _ \<Rightarrow> []) d of
        Inl x \<Rightarrow> (errorResponse (Message x) ''DATABASE_ERROR'' 500, d)
      | Inr (lead, d') \<Rightarrow>
          (case findByPk e (leads d') (map_of lead ''id'') of
             Inl x \<Rightarrow> (errorResponse (Message x) ''DATABASE_ERROR'' 500, d')
           | Inr leadWithAssociations \<Rightarrow>
               (successResponse
                  (JObj [(''lead'', (case leadWithAssociations of
                                       None \<Rightarrow> JNull
                                     | Some l \<Rightarrow> JObj (lead_includes d' l)))])
                  ''Lead created successfully'' 201, d')))"

text \<open>PUT /api/leads/:id/stage (behind \<open>validate(updateLeadStageSchema)\<close>).\<close>

definition leads_stage :: handler where
  "leads_stage e d req =
     (case findByPk e (leads d) (Some (JStr (params_id req))) of
        Inl x \<Rightarrow> (errorResponse (Message x) ''DATABASE_ERROR'' 500, d)
      | Inr None \<Rightarrow> (errorResponse (Text ''Lead not found'') ''NOT_FOUND'' 404, d)
      | Inr (Some lead) \<Rightarrow>
          (case update e Lead lead (body_values req [''stage'']) d of
             Inl x \<Rightarrow> (errorResponse (Message x) ''DATABASE_ERROR'' 500, d)
           | Inr (l', d') \<Rightarrow>
               (case findByPk e (leads d') (Some (JStr (params_id req))) of
                  Inl x \<Rightarrow> (errorResponse (Message x) ''DATABASE_ERROR'' 500, d')
                | Inr updatedLead \<Rightarrow>
                    (successResponse
                       (JObj ([(''lead'', (case updatedLead of
                                            None \<Rightarrow> JNull
                                          | Some l \<Rightarrow> JObj (lead_includes d' l)))]
                              @ (case map_of lead ''stage'' of
                                   None \<Rightarrow> []
                                 | Some s \<Rightarrow> [(''oldStage'', s)])
                              @ (case get_prop (body req) ''stage'' of
                                   None \<Rightarrow> []
                                 | Some s \<Rightarrow> [(''newStage'', s)])))
                       ''Lead stage updated successfully'' 200, d'))))"

text \<open>GET /api/leads/stats/overview.\<close>

definition leads_stats :: handler where
  "leads_stats e d req =
     (let stageStats =
            map (\<lambda>(stage, rs). (stage, count_id e rs, db_sum e (map (column ''value'') rs)))
              (group_by ''stage'' (leads d));
          totalValue =
            foldl (\<lambda>sum (stage, count, v).
                     js_plus sum (ToNumber (or_else (map_option (\<lambda>x. Number (parseFloat x)) v)
                                              (Number (Num 0)))))
              (Num 0) stageStats;
          totalLeads =
            foldl (\<lambda>sum (stage, count, v). js_plus sum (parseInt count)) (Num 0) stageStats;
          closedLeads =
            or_else (map_option (\<lambda>(stage, count, v). count)
                       (find (\<lambda>(stage, count, v). stage = JStr ''closed'') stageStats))
              (Number (Num 0))
      in (successResponse
            (JObj [(''stages'', JObj (by_stage (map (\<lambda>(stage, count, v). (stage, count)) stageStats))),
                   (''totalValue'', json_of (toFixed2 totalValue)),
                   (''conversionRate'',
                    json_of (toFixed2 (conversionRate closedLeads (Number totalLeads)))),
                   (''totalLeads'', json_of totalLeads)])
            ''Success'' 200, d))"

section \<open>routes/customers\<close>

text \<open>GET /api/customers.\<close>

definition customers_where :: "request \<Rightarrow> cond list" where
  "customers_where req =
     (case truthy req ''search'' of
        None \<Rightarrow> []
      | Some search \<Rightarrow>
          [Or [ILike ''name'' (''%'' @ search @ ''%''),
               ILike ''email'' (''%'' @ search @ ''%''),
               ILike ''company'' (''%'' @ search @ ''%'')]])
     @ (case truthy req ''tags'' of
          None \<Rightarrow> []
        | Some tags \<Rightarrow> [Overlap ''tags'' (map trim (split (CHR '','') tags))])"

definition customers_list :: handler where
  "customers_list e d req =
     (let page = query_or req ''page'' 1; limit = query_or req ''limit'' 10;
          offset = offset_of page limit in
      case findAndCountAll e Customer (customers_where req) [(''createdAt'', DESC)]
             (parseInt limit) (parseInt (Number offset)) d of
        Inl x \<Rightarrow> (errorResponse (Message x) ''DATABASE_ERROR'' 500, d)
      | Inr (count, rs) \<Rightarrow>
          (successResponse
             (JObj [(''customers'', JArr (map JObj rs)),
                    (''pagination'', pagination page limit count)])
             ''Success'' 200, d))"

text \<open>DELETE /api/customers/:id.\<close>

definition customers_delete :: handler where
  "customers_delete e d req =
     (case findByPk e (customers d) (Some (JStr (params_id req))) of
        Inl x \<Rightarrow> (errorResponse (Message x) ''DATABASE_ERROR'' 500, d)
      | Inr None \<Rightarrow> (errorResponse (Text ''Customer not found'') ''NOT_FOUND'' 404, d)
      | Inr (Some customer) \<Rightarrow>
          (successResponse (JObj []) ''Customer deleted successfully'' 200,
           destroy Customers customer d))"

text \<open>GET /api/customers/:id/interactions.\<close>

definition customer_interactions_list :: handler where
  "customer_interactions_list e d req =
     (let page = query_or req ''page'' 1; limit = query_or req ''limit'' 20;
          offset = offset_of page limit in
      case findAndCountAll e Interaction [Eq ''customerId'' (JStr (params_id req))]
             [(''date'', DESC)] (parseInt limit) (parseInt (Number offset)) d of
        Inl x \<Rightarrow> (errorResponse (Message x) ''DATABASE_ERROR'' 500, d)
      | Inr (count, rs) \<Rightarrow>
          (successResponse
             (JObj [(''interactions'',
                     JArr (map (\<lambda>r. JObj (with_include (users d) ''created_by''
                                   ''createdByUser'' [''id'', ''name''] r)) rs)),
                    (''pagination'', pagination page limit count)])
             ''Success'' 200, d))"

section \<open>routes/tasks.js and routes/interactions.js\<close>

text \<open>GET /api/tasks.\<close>

definition tasks_list :: handler where
  "tasks_list e d req =
     (let page = query_or req ''page'' 1; limit = query_or req ''limit'' 10;
          offset = offset_of page limit;
          whereClause = eq_filter req ''status'' @ eq_filter req ''priority''
                        @ eq_filter req ''assignedTo'' @ eq_filter req ''customerId'' in
      case findAndCountAll e Task whereClause [(''dueDate'', ASC), (''priority'', DESC)]
             (parseInt limit) (parseInt (Number offset)) d of
        Inl x \<Rightarrow> (errorResponse (Message x) ''DATABASE_ERROR'' 500, d)
      | Inr (count, rs) \<Rightarrow>
          (successResponse
             (JObj [(''tasks'',
                     JArr (map (\<lambda>r. JObj
                       (with_include (users d) ''assignedTo'' ''assignedUser''
                          [''id'', ''name'', ''email'']
                          (with_include (customers d) ''customerId'' ''customer''
                             [''id'', ''name'', ''email'', ''company''] r))) rs)),
                    (''pagination'', pagination page limit count)])
             ''Success'' 200, d))"

text \<open>GET /api/interactions.\<close>

definition interactions_list :: handler where
  "interactions_list e d req =
     (let page = query_or req ''page'' 1; limit = query_or req ''limit'' 20;
          offset = offset_of page limit;
          whereClause = eq_filter req ''customerId'' @ eq_filter req ''type'' in
      case findAndCountAll e Interaction whereClause [(''date'', DESC)] (parseInt limit) (parseInt (Number offset)) d of
        Inl x \<Rightarrow> (errorResponse (Message x) ''DATABASE_ERROR'' 500, d)
      | Inr (count, rs) \<Rightarrow>
          (successResponse
             (JObj [(''interactions'',
                     JArr (map (\<lambda>r. JObj
                       (with_include (users d) ''created_by'' ''createdByUser''
                          [''id'', ''name'', ''email'']
                          (with_include (customers d) ''customer_id'' ''customer''
                             [''id'', ''name'', ''email'', ''company''] r))) rs)),
                    (''pagination'', pagination page limit count)])
             ''Success'' 200, d))"

section \<open>routes/reports.js\<close>

text \<open>
  GET /api/reports/dashboard and GET /api/reports/dashboard-stats: the two handlers have
  the same body.
\<close>

definition dashboard :: handler where
  "dashboard e d req =
     (case db_newThisMonth e (customers d) of
        Inl x \<Rightarrow> (errorResponse (Message x) ''DATABASE_ERROR'' 500, d)
      | Inr recent \<Rightarrow>
          (let zero = Number (Num 0);
               total = count_id e (leads d);
               closed = count_when e ''stage'' ''closed'' (leads d);
               totalValue = db_sum e (map (column ''value'') (leads d));
               pipelineStats = map (\<lambda>(stage, rs). (stage, count_id e rs))
                                 (group_by ''stage'' (leads d));
               totalLeads = or_else (Some total) zero;
               closedLeads = or_else (Some closed) zero
           in (successResponse
                 (JObj [(''customers'',
                         JObj [(''total'',
                                json_of (parseInt (or_else (Some (count_id e (customers d))) zero))),
                               (''newThisMonth'',
                                json_of (parseInt (or_else (Some (driver_count e recent)) zero)))]),
                        (''leads'',
                         JObj [(''total'', json_of (parseInt (or_else (Some total) zero))),
                               (''conversionRate'',
                                json_of (toFixed2 (conversionRate closedLeads totalLeads))),
                               (''totalValue'', json_of (parseFloat (or_else totalValue zero)))]),
                        (''tasks'',
                         JObj [(''total'',
                                json_of (parseInt (or_else (Some (count_id e (tasks d))) zero))),
                               (''completed'',
                                json_of (parseInt (or_else
                                  (Some (count_when e ''status'' ''completed'' (tasks d))) zero))),
                               (''pending'',
                                json_of (parseInt (or_else
                                  (Some (count_when e ''status'' ''pending'' (tasks d))) zero)))]),
                        (''pipeline'', JObj (by_stage pipelineStats))])
                 ''Success'' 200, d)))"

definition reports_dashboard :: handler where
  "reports_dashboard = dashboard"

definition reports_dashboard_stats :: handler where
  "reports_dashboard_stats = dashboard"

text \<open>
  GET /api/reports/conversion. The leads of the trailing interval, grouped by period,
  come from the engine (\<open>db_periods\<close>, with the period of the query and the interval).
\<close>

definition interval_of :: "string \<Rightarrow> string" where
  "interval_of period =
     (if period = ''week'' then ''7 days''
      else if period = ''month'' then ''30 days''
      else if period = ''quarter'' then ''90 days''
      else if period = ''year'' then ''365 days''
      else ''30 days'')"

definition reports_conversion :: handler where
  "reports_conversion e d req =
     (let period = (case map_of (query req) ''period'' of None \<Rightarrow> ''month'' | Some p \<Rightarrow> p) in
      case db_periods e period (interval_of period) (leads d) of
        Inl x \<Rightarrow> (errorResponse (Message x) ''DATABASE_ERROR'' 500, d)
      | Inr groups \<Rightarrow>
          (let conversionData =
                 map (\<lambda>(p, rs). (p, count_id e rs, count_when e ''stage'' ''closed'' rs)) groups;
               conversionRates =
                 map (\<lambda>(p, leads, closed).
                        (p, parseInt leads, parseInt closed,
                         (if positive (ToNumber leads)
                          then toFixed2 (js_times (js_divide (ToNumber closed) (ToNumber leads))
                                           (Num 100))
                          else Num 0)))
                   conversionData;
               totalLeads = foldl (\<lambda>sum (p, leads, closed, rate). js_plus sum leads) (Num 0)
                              conversionRates;
               totalClosed = foldl (\<lambda>sum (p, leads, closed, rate). js_plus sum closed) (Num 0)
                               conversionRates;
               averageRate =
                 (if positive totalLeads
                  then toFixed2 (js_times (js_divide totalClosed totalLeads) (Num 100))
                  else Num 0)
           in (successResponse
                 (JObj [(''conversionRates'',
                         JArr (map (\<lambda>(p, leads, closed, rate).
                                      JObj [(''period'', p), (''leads'', json_of leads),
                                            (''closed'', json_of closed), (''rate'', json_of rate)])
                                 conversionRates)),
                        (''averageRate'', json_of averageRate)])
                 ''Success'' 200, d)))"

section \<open>The routers\<close>

text \<open>
  Every route of the routers with the middlewares in front of its handler: those the
  router installs with \<open>router.use\<close>, then those of the route.
\<close>

datatype mw = AuthenticateToken | RequireAdmin | RequireUser | Validate schema

fun interp :: "mw \<Rightarrow> middleware" where
  "interp AuthenticateToken = authenticateToken"
| "interp RequireAdmin = requireAdmin"
| "interp RequireUser = requireUser"
| "interp (Validate sch) = validate sch"

datatype route =
    AuthRegister | AuthLogin | AuthMe | AuthLogout | AuthRefresh
  | CustomersList | CustomersCreate | CustomersGet | CustomersUpdate | CustomersDelete
  | CustomersInteractionsList | CustomersInteractionsAdd
  | LeadsList | LeadsCreate | LeadsGet | LeadsUpdate | LeadsStage | LeadsDelete | LeadsStats
  | TasksList | TasksCreate | TasksGet | TasksUpdate | TasksStatus | TasksDelete
  | InteractionsList | InteractionsCreate
  | ReportsDashboard | ReportsDashboardStats | ReportsConversion
  | UsersList | UsersGet | UsersUpdate | UsersDelete

fun middlewares :: "route \<Rightarrow> mw list" where
  "middlewares AuthRegister = [Validate registerSchema]"
| "middlewares AuthLogin = [Validate loginSchema]"
| "middlewares AuthMe = [AuthenticateToken]"
| "middlewares AuthLogout = [AuthenticateToken]"
| "middlewares AuthRefresh = [AuthenticateToken]"
| "middlewares CustomersList = [AuthenticateToken, RequireUser]"
| "middlewares CustomersCreate = [AuthenticateToken, RequireUser, Validate customerSchema]"
| "middlewares CustomersGet = [AuthenticateToken, RequireUser]"
| "middlewares CustomersUpdate = [AuthenticateToken, RequireUser, Validate customerSchema]"
| "middlewares CustomersDelete = [AuthenticateToken, RequireUser]"
| "middlewares CustomersInteractionsList = [AuthenticateToken, RequireUser]"
| "middlewares CustomersInteractionsAdd =
     [AuthenticateToken, RequireUser, Validate interactionSchema]"
| "middlewares LeadsList = [AuthenticateToken, RequireUser]"
| "middlewares LeadsCreate = [AuthenticateToken, RequireUser, Validate leadSchema]"
| "middlewares LeadsGet = [AuthenticateToken, RequireUser]"
| "middlewares LeadsUpdate = [AuthenticateToken, RequireUser, Validate leadSchema]"
| "middlewares LeadsStage = [AuthenticateToken, RequireUser, Validate updateLeadStageSchema]"
| "middlewares LeadsDelete = [AuthenticateToken, RequireUser]"
| "middlewares LeadsStats = [AuthenticateToken, RequireUser]"
| "middlewares TasksList = [AuthenticateToken, RequireUser]"
| "middlewares TasksCreate = [AuthenticateToken, RequireUser, Validate taskSchema]"
| "middlewares TasksGet = [AuthenticateToken, RequireUser]"
| "middlewares TasksUpdate = [AuthenticateToken, RequireUser, Validate taskSchema]"
| "middlewares TasksStatus = [AuthenticateToken, RequireUser, Validate updateTaskStatusSchema]"
| "middlewares TasksDelete = [AuthenticateToken, RequireUser]"
| "middlewares InteractionsList = [AuthenticateToken, RequireUser]"
| "middlewares InteractionsCreate = [AuthenticateToken, RequireUser, Validate interactionSchema]"
| "middlewares ReportsDashboard = [AuthenticateToken, RequireAdmin]"
| "middlewares ReportsDashboardStats = [AuthenticateToken, RequireUser]"
| "middlewares ReportsConversion = [AuthenticateToken, RequireAdmin]"
| "middlewares UsersList = [AuthenticateToken, RequireAdmin]"
| "middlewares UsersGet = [AuthenticateToken, RequireAdmin]"
| "middlewares UsersUpdate = [AuthenticateToken, RequireAdmin]"
| "middlewares UsersDelete = [AuthenticateToken, RequireAdmin]"

text \<open>A route with a handler behind its middlewares.\<close>

definition serve :: "route \<Rightarrow> handler \<Rightarrow> handler" where
  "serve r h = run_chain (map interp (middlewares r)) h"

text \<open>The roles a route accepts, when it has a role gate.\<close>

fun roles_of_mw :: "mw \<Rightarrow> string list option" where
  "roles_of_mw RequireAdmin = Some [''admin'']"
| "roles_of_mw RequireUser = Some [''admin'', ''user'']"
| "roles_of_mw m = None"

definition declared_roles :: "route \<Rightarrow> string list option" where
  "declared_roles r =
     (case List.map_filter roles_of_mw (middlewares r) of
        [] \<Rightarrow> None
      | rs # rest \<Rightarrow> Some rs)"

text \<open>The schema in front of a route, when it has one.\<close>

fun schema_of_mw :: "mw \<Rightarrow> schema option" where
  "schema_of_mw (Validate sch) = Some sch"
| "schema_of_mw m = None"

definition declared_schema :: "route \<Rightarrow> schema option" where
  "declared_schema r =
     (case List.map_filter schema_of_mw (middlewares r) of
        [] \<Rightarrow> None
      | sch # rest \<Rightarrow> Some sch)"

text \<open>
  The routes that create or update a user, a customer, a lead, a task or an
  interaction from a request body, with the stage and status updates.
\<close>

definition mutating_routes :: "route list" where
  "mutating_routes =
    [AuthRegister, UsersUpdate,
     CustomersCreate, CustomersUpdate,
     LeadsCreate, LeadsUpdate, LeadsStage,
     TasksCreate, TasksUpdate, TasksStatus,
     InteractionsCreate, CustomersInteractionsAdd]"

section \<open>What the claims speak of\<close>

text \<open>
  The user representations in a response: the object under \<open>user\<close> and the objects of
  the list under \<open>users\<close>, in the payload of a successful answer.
\<close>

fun objects :: "json list \<Rightarrow> obj list" where
  "objects [] = []"
| "objects (JObj kvs # vs) = kvs # objects vs"
| "objects (v # vs) = objects vs"

definition user_representations :: "response \<Rightarrow> obj list" where
  "user_representations res =
     (case res of
        Failure s err c \<Rightarrow> []
      | Success s payload m \<Rightarrow>
          (case get_prop payload ''user'' of
             Some (JObj u) \<Rightarrow> [u]
           | _ \<Rightarrow> [])
          @ (case get_prop payload ''users'' of
               Some (JArr us) \<Rightarrow> objects us
             | _ \<Rightarrow> []))"

text \<open>
  The operations that return a user: registration, login, me, the user list, the read
  and the update of a user.
\<close>

definition user_endpoints :: "(route \<times> handler) list" where
  "user_endpoints =
    [(AuthRegister, auth_register), (AuthLogin, auth_login), (AuthMe, auth_me),
     (UsersList, users_list), (UsersGet, users_get), (UsersUpdate, users_update)]"

text \<open>
  The list endpoints, each with the key of its rows in the payload, and the rows of an
  answer.
\<close>

definition list_endpoints :: "(route \<times> handler \<times> string) list" where
  "list_endpoints =
    [(UsersList, users_list, ''users''),
     (CustomersList, customers_list, ''customers''),
     (CustomersInteractionsList, customer_interactions_list, ''interactions''),
     (LeadsList, leads_list, ''leads''),
     (TasksList, tasks_list, ''tasks''),
     (InteractionsList, interactions_list, ''interactions'')]"

definition rows_in :: "string \<Rightarrow> response \<Rightarrow> json list" where
  "rows_in k res =
     (case res of
        Failure s err c \<Rightarrow> []
      | Success s payload m \<Rightarrow>
          (case get_prop payload k of
             Some (JArr rs) \<Rightarrow> rs
           | _ \<Rightarrow> []))"

section \<open>Example data\<close>

text \<open>
  A small database and stand-ins for the libraries, on which the theorems below are
  exercised: two users (an admin and a plain user), a customer with one lead, one task
  and one interaction. The stand-in for the database is SQLite: it reads a string that
  it compares with a key as a decimal literal, when it is one. It selects by the
  equalities of a \<open>where\<close> clause and gives the newest row first for a descending
  order. It has no \<open>DATE_TRUNC\<close>, and it reads \<open>"createdAt"\<close>, which names no column of
  the customers, as a string that is greater than any date.
\<close>

fun holds :: "row \<Rightarrow> cond \<Rightarrow> bool" where
  "holds r (Eq k v) = (map_of r k = Some v)"
| "holds r c = True"

definition example_env :: env where
  "example_env =
     \<lparr>jwt_verify = (\<lambda>t.
        if t = ''alice'' then Decoded (JObj [(''userId'', JNum 1), (''role'', JStr ''admin'')])
        else if t = ''bob'' then Decoded (JObj [(''userId'', JNum 2), (''role'', JStr ''user'')])
        else if t = ''ghost'' then Decoded (JObj [(''userId'', JNum 99), (''role'', JStr ''user'')])
        else if t = ''stale'' then Throws ''TokenExpiredError''
        else Throws ''JsonWebTokenError''),
      jwt_sign = (\<lambda>payload. ''signed''),
      bcrypt_hash = (\<lambda>p. ''hash:'' @ p),
      bcrypt_compare = (\<lambda>p h. h = ''hash:'' @ p),
      now = 1000,
      joi_email = (\<lambda>s. CHR ''@'' \<in> set s),
      joi_number = (\<lambda>s. None),
      joi_date = (\<lambda>v. True),
      dialect = Sqlite,
      validator_ok = (\<lambda>c v.
        case (c, v) of
          (Len lo hi, JStr s) \<Rightarrow> lo \<le> length s \<and> length s \<le> hi
        | (Min lo, JNum q) \<Rightarrow> lo \<le> q
        | (IsEmail, JStr s) \<Rightarrow> CHR ''@'' \<in> set s
        | _ \<Rightarrow> True),
      db_accepts = (\<lambda>t v. True),
      db_key = (\<lambda>s. Inr (decimal_literal (trim s))),
      db_select = (\<lambda>t wh ord rs.
        Inr ((case ord of (k, DESC) # ks \<Rightarrow> rev | _ \<Rightarrow> (\<lambda>xs. xs))
               (filter (\<lambda>r. list_all (holds r) wh) rs))),
      db_sum = (\<lambda>vs. if list_all (\<lambda>v. v = JNull) vs then None
        else Some (Number (double (sum_list (map (\<lambda>v. case v of JNum q \<Rightarrow> q | _ \<Rightarrow> 0) vs))))),
      db_newThisMonth = (\<lambda>rs. Inr (length rs)),
      db_periods = (\<lambda>period interval rs. Inl (SequelizeDatabaseError ''DATE_TRUNC''))\<rparr>"

definition alice :: row where
  "alice = [(''id'', JNum 1), (''name'', JStr ''Alice''), (''email'', JStr ''alice@crm.com''),
            (''password'', JStr ''hash:admin123''), (''role'', JStr ''admin''),
            (''createdAt'', JNum 10), (''updatedAt'', JNum 10)]"

definition bob :: row where
  "bob = [(''id'', JNum 2), (''name'', JStr ''Bob''), (''email'', JStr ''bob@crm.com''),
          (''password'', JStr ''hash:user123''), (''role'', JStr ''user''),
          (''createdAt'', JNum 20), (''updatedAt'', JNum 20)]"

definition acme :: row where
  "acme = [(''id'', JNum 1), (''name'', JStr ''Acme''), (''email'', JStr ''a@acme.com''),
           (''phone'', JNull), (''company'', JStr ''Acme Corp''), (''tags'', JStr ''[]''),
           (''notes'', JNull), (''createdAt'', JNum 30), (''updatedAt'', JNum 30)]"

definition deal :: row where
  "deal = [(''id'', JNum 1), (''title'', JStr ''Deal''), (''description'', JNull),
           (''stage'', JStr ''lead''), (''value'', JNum 5000), (''customer_id'', JNum 1),
           (''assigned_to'', JNum 2), (''createdAt'', JNum 40), (''updatedAt'', JNum 40)]"

definition call_back :: row where
  "call_back = [(''id'', JNum 1), (''title'', JStr ''Call back''), (''status'', JStr ''pending''),
                (''priority'', JStr ''medium''), (''assignedTo'', JNum 2),
                (''customerId'', JNum 1), (''createdAt'', JNum 50), (''updatedAt'', JNum 50)]"

definition first_call :: row where
  "first_call = [(''id'', JNum 1), (''customer_id'', JNum 1), (''type'', JStr ''call''),
                 (''notes'', JStr ''Intro''), (''date'', JNum 60), (''created_by'', JNum 1),
                 (''createdAt'', JNum 60), (''updatedAt'', JNum 60)]"

definition example_db :: db where
  "example_db =
     \<lparr>users = [alice, bob], customers = [acme], leads = [deal], tasks = [call_back],
      interactions = [first_call], users_seq = 2, customers_seq = 1, leads_seq = 1,
      tasks_seq = 1, interactions_seq = 1\<rparr>"

definition request0 :: request where
  "request0 = \<lparr>headers_authorization = None, params_id = [], query = [],
     body = JObj [], user = None\<rparr>"

definition bearer :: "string \<Rightarrow> request" where
  "bearer t = request0\<lparr>headers_authorization := Some (''Bearer '' @ t)\<rparr>"

section \<open>Properties\<close>

subsection \<open>Authentication and roles\<close>

lemmas example_defs = example_env_def example_db_def alice_def bob_def acme_def deal_def
  call_back_def first_call_def request0_def bearer_def

lemma bearer_token_bearer:
  "CHR '' '' \<notin> set t \<Longrightarrow> t \<noteq> [] \<Longrightarrow> bearer_token (bearer t) = Some t"
proof -
  assume a: "CHR '' '' \<notin> set t" "t \<noteq> []"
  have "split (CHR '' '') t = [t]" using a(1) by (induction t) auto
  then show ?thesis by (simp add: bearer_token_def bearer_def request0_def a(2))
qed

lemma authenticateToken_Inl:
  "authenticateToken e d req = Inl res \<Longrightarrow>
     status_of res = 401 \<and> code_of res = Some ''AUTHENTICATION_ERROR''"
  by (auto simp: authenticateToken_def
        split: option.splits jwt_result.splits sum.splits if_splits)

lemma authenticateToken_Inr:
  "authenticateToken e d req = Inr req' \<Longrightarrow> \<exists>u. req' = req\<lparr>user := Some u\<rparr>"
  by (auto simp: authenticateToken_def
        split: option.splits jwt_result.splits sum.splits if_splits)

text \<open>
  C6. A request whose bearer token is expired, malformed (the token library throws
  anything but \<open>TokenExpiredError\<close>), or names a user id that no user has, is
  answered with status 401 and code \<open>AUTHENTICATION_ERROR\<close>; the three answers differ
  in the message only.
\<close>

theorem authenticateToken_rejects:
  "bearer_token req = Some token \<Longrightarrow>
     (jwt_verify e token = Throws ''TokenExpiredError'' \<longrightarrow>
        authenticateToken e d req
          = Inl (Failure 401 (Text ''Token expired'') ''AUTHENTICATION_ERROR''))
   \<and> (\<forall>name. jwt_verify e token = Throws name \<and> name \<noteq> ''TokenExpiredError'' \<longrightarrow>
        authenticateToken e d req
          = Inl (Failure 401 (Text ''Invalid token'') ''AUTHENTICATION_ERROR''))
   \<and> (\<forall>decoded. jwt_verify e token = Decoded decoded
          \<and> findByPk e (users d) (get_prop decoded ''userId'') = Inr None \<longrightarrow>
        authenticateToken e d req
          = Inl (Failure 401 (Text ''User not found'') ''AUTHENTICATION_ERROR''))"
  by (simp add: authenticateToken_def)

theorem authenticateToken_rejects_witness:
  "authenticateToken example_env example_db (bearer ''stale'')
     = Inl (Failure 401 (Text ''Token expired'') ''AUTHENTICATION_ERROR'')
   \<and> authenticateToken example_env example_db (bearer ''garbled'')
     = Inl (Failure 401 (Text ''Invalid token'') ''AUTHENTICATION_ERROR'')
   \<and> authenticateToken example_env example_db (bearer ''ghost'')
     = Inl (Failure 401 (Text ''User not found'') ''AUTHENTICATION_ERROR'')"
proof -
  have t1: "bearer_token (bearer ''stale'') = Some ''stale''"
    and t2: "bearer_token (bearer ''garbled'') = Some ''garbled''"
    and t3: "bearer_token (bearer ''ghost'') = Some ''ghost''"
    by (simp_all add: bearer_token_bearer)
  have v1: "jwt_verify example_env ''stale'' = Throws ''TokenExpiredError''"
    and v2: "jwt_verify example_env ''garbled'' = Throws ''JsonWebTokenError''"
    and v3: "jwt_verify example_env ''ghost''
               = Decoded (JObj [(''userId'', JNum 99), (''role'', JStr ''user'')])"
    by (simp_all add: example_env_def)
  have nf: "findByPk example_env (users example_db)
              (get_prop (JObj [(''userId'', JNum 99), (''role'', JStr ''user'')]) ''userId'')
            = Inr None"
    by (simp add: findByPk_def by_id_def example_defs)
  show ?thesis
    using authenticateToken_rejects[OF t1, of example_env example_db]
          authenticateToken_rejects[OF t2, of example_env example_db]
          authenticateToken_rejects[OF t3, of example_env example_db]
          v1 v2 v3 nf
    by simp
qed

lemma declared_roles_chain:
  "declared_roles r = Some roles \<Longrightarrow>
     \<exists>rest. map interp (middlewares r) = authenticateToken # requireRole roles # rest"
  by (cases r) (auto simp: declared_roles_def List.map_filter_def requireAdmin_def requireUser_def)

text \<open>
  C7. On every route with a role gate: without a principal the answer is 401
  \<open>AUTHENTICATION_ERROR\<close> (from \<open>requireRole\<close> itself when \<open>req.user\<close> is not set,
  and from the route when \<open>authenticateToken\<close> resolves none); with a principal whose
  role is not accepted it is 403 \<open>AUTHORIZATION_ERROR\<close>, whatever the handler; and a
  principal of role \<open>user\<close> gets 403 from the user list.
\<close>

theorem requireRole_gate:
  "declared_roles r = Some roles \<Longrightarrow>
     (user req = None \<longrightarrow>
        requireRole roles e d req
          = Inl (Failure 401 (Text ''Authentication required'') ''AUTHENTICATION_ERROR''))
   \<and> (\<forall>res. authenticateToken e d req = Inl res \<longrightarrow>
        serve r h e d req = (res, d)
        \<and> status_of res = 401 \<and> code_of res = Some ''AUTHENTICATION_ERROR'')
   \<and> (\<forall>u. user req = Some u \<and> \<not> includes_role roles u \<longrightarrow>
        requireRole roles e d req
          = Inl (Failure 403 (Text ''Insufficient permissions'') ''AUTHORIZATION_ERROR''))
   \<and> (\<forall>req' u. authenticateToken e d req = Inr req' \<and> user req' = Some u
          \<and> \<not> includes_role roles u \<longrightarrow>
        serve r h e d req
          = (Failure 403 (Text ''Insufficient permissions'') ''AUTHORIZATION_ERROR'', d))
   \<and> (\<forall>req' u. authenticateToken e d req = Inr req' \<and> user req' = Some u
          \<and> map_of u ''role'' = Some (JStr ''user'') \<longrightarrow>
        serve UsersList users_list e d req
          = (Failure 403 (Text ''Insufficient permissions'') ''AUTHORIZATION_ERROR'', d))"
proof -
  assume a: "declared_roles r = Some roles"
  obtain rest where
    c: "map interp (middlewares r) = authenticateToken # requireRole roles # rest"
    using declared_roles_chain[OF a] by (elim exE)
  show ?thesis
    by (auto simp: serve_def c requireRole_def requireAdmin_def includes_role_def
          dest: authenticateToken_Inl)
qed

theorem requireRole_gate_witness:
  "declared_roles UsersList = Some [''admin'']
   \<and> requireRole [''admin''] example_env example_db request0
       = Inl (Failure 401 (Text ''Authentication required'') ''AUTHENTICATION_ERROR'')
   \<and> serve UsersList users_list example_env example_db (bearer ''stale'')
       = (Failure 401 (Text ''Token expired'') ''AUTHENTICATION_ERROR'', example_db)
   \<and> requireRole [''admin''] example_env example_db (request0\<lparr>user := Some bob\<rparr>)
       = Inl (Failure 403 (Text ''Insufficient permissions'') ''AUTHORIZATION_ERROR'')
   \<and> serve UsersList users_list example_env example_db (bearer ''bob'')
       = (Failure 403 (Text ''Insufficient permissions'') ''AUTHORIZATION_ERROR'', example_db)"
proof -
  have r: "declared_roles UsersList = Some [''admin'']"
    by (simp add: declared_roles_def List.map_filter_def)
  have t: "bearer_token (bearer ''stale'') = Some ''stale''"
    and t2: "bearer_token (bearer ''bob'') = Some ''bob''"
    by (simp_all add: bearer_token_bearer)
  have a1: "authenticateToken example_env example_db (bearer ''stale'')
              = Inl (Failure 401 (Text ''Token expired'') ''AUTHENTICATION_ERROR'')"
    by (simp add: authenticateToken_def t example_env_def)
  have a2: "authenticateToken example_env example_db (bearer ''bob'')
              = Inr ((bearer ''bob'')\<lparr>user := Some bob\<rparr>)"
    by (simp add: authenticateToken_def t2 findByPk_def by_id_def example_env_def
          example_db_def alice_def bob_def)
  have nb: "\<not> includes_role [''admin''] bob"
    by (simp add: includes_role_def bob_def)
  have rb: "map_of bob ''role'' = Some (JStr ''user'')" by (simp add: bob_def)
  note g = requireRole_gate[OF r, where h = users_list and e = example_env and d = example_db]
  show ?thesis
    using r g[of request0] g[of "bearer ''stale''"] g[of "request0\<lparr>user := Some bob\<rparr>"]
          g[of "bearer ''bob''"] a1 a2 nb rb
    by (simp add: request0_def)
qed

text \<open>
  C9. The admin Alice, whose id is 1, asks DELETE /api/users/1 and is refused with 400
  \<open>VALIDATION_ERROR\<close>. She asks DELETE /api/users/10e-1, on SQLite: the guard reads
  \<open>parseInt('10e-1')\<close>, which is 10 and not her id, and lets the request through; the
  lookup hands \<open>'10e-1'\<close> to the database, which compares it with the keys as the
  number 1 and finds her row. The answer is 200 and her account is deleted (the
  interaction she created has no creator any more).
\<close>

theorem users_delete_self_other_spelling:
  "map_of alice ''id'' = Some (JNum 1)
   \<and> serve UsersDelete users_delete example_env example_db
         ((bearer ''alice'')\<lparr>params_id := ''1''\<rparr>)
       = (Failure 400 (Text ''Cannot delete your own account'') ''VALIDATION_ERROR'', example_db)
   \<and> parseInt (Str ''10e-1'') = Num 10
   \<and> findByPk example_env (users example_db) (Some (JStr ''10e-1'')) = Inr (Some alice)
   \<and> serve UsersDelete users_delete example_env example_db
         ((bearer ''alice'')\<lparr>params_id := ''10e-1''\<rparr>)
       = (Success 200 (JObj []) ''User deleted successfully'',
          \<lparr>users = [bob], customers = [acme], leads = [deal], tasks = [call_back],
           interactions = [[(''id'', JNum 1), (''customer_id'', JNum 1),
                            (''type'', JStr ''call''), (''notes'', JStr ''Intro''),
                            (''date'', JNum 60), (''created_by'', JNull),
                            (''createdAt'', JNum 60), (''updatedAt'', JNum 60)]],
           users_seq = 2, customers_seq = 1, leads_seq = 1, tasks_seq = 1,
           interactions_seq = 1\<rparr>)"
  by code_simp

subsection \<open>No password in a user representation\<close>

lemma map_of_toJSON: "map_of (toJSON r) ''password'' = None"
  by (simp add: toJSON_def map_of_eq_None_iff delete_notin_dom)

lemma interp_Inl:
  "interp m e d req = Inl res \<Longrightarrow> user_representations res = []"
  by (cases m)
     (auto simp: authenticateToken_def requireAdmin_def requireUser_def requireRole_def
        validate_def user_representations_def
        split: option.splits jwt_result.splits sum.splits if_splits)

lemma run_chain_cases:
  "(\<exists>m req1 res. m \<in> set ms \<and> m e d req1 = Inl res \<and> run_chain ms h e d req = (res, d))
   \<or> (\<exists>req'. run_chain ms h e d req = h e d req')"
proof (induction ms arbitrary: req)
  case Nil
  then show ?case by auto
next
  case (Cons m ms)
  show ?case
  proof (cases "m e d req")
    case (Inl res)
    then show ?thesis by auto
  next
    case (Inr req')
    with Cons[of req'] show ?thesis by auto
  qed
qed

lemma objects_map_JObj: "objects (map (\<lambda>r. JObj (f r)) rs) = map f rs"
  by (induction rs) auto

lemma users_list_no_password:
  "u \<in> set (user_representations (fst (users_list e d req))) \<Longrightarrow> map_of u ''password'' = None"
  by (auto simp: users_list_def user_representations_def successResponse_def errorResponse_def
        Let_def objects_map_JObj map_of_toJSON split: sum.splits prod.splits)

lemma users_get_no_password:
  "u \<in> set (user_representations (fst (users_get e d req))) \<Longrightarrow> map_of u ''password'' = None"
  by (auto simp: users_get_def user_representations_def successResponse_def errorResponse_def
        map_of_toJSON split: option.splits sum.splits)

lemma users_update_no_password:
  "u \<in> set (user_representations (fst (users_update e d req))) \<Longrightarrow> map_of u ''password'' = None"
  by (auto simp: users_update_def user_representations_def successResponse_def errorResponse_def
        map_of_toJSON split: option.splits sum.splits prod.splits)

lemma auth_register_no_password:
  "u \<in> set (user_representations (fst (auth_register e d req))) \<Longrightarrow> map_of u ''password'' = None"
  by (auto simp: auth_register_def user_representations_def successResponse_def errorResponse_def
        map_of_toJSON split: option.splits sum.splits prod.splits)

lemma auth_login_no_password:
  "u \<in> set (user_representations (fst (auth_login e d req))) \<Longrightarrow> map_of u ''password'' = None"
  by (auto simp: auth_login_def user_representations_def successResponse_def errorResponse_def
        map_of_toJSON split: option.splits sum.splits prod.splits json.splits if_splits)

lemma auth_me_no_password:
  "u \<in> set (user_representations (fst (auth_me e d req))) \<Longrightarrow> map_of u ''password'' = None"
  by (auto simp: auth_me_def user_representations_def successResponse_def errorResponse_def
        map_of_toJSON split: option.splits)

lemma serve_no_password:
  assumes h: "\<And>req' u. u \<in> set (user_representations (fst (h e d req'))) \<Longrightarrow> map_of u ''password'' = None"
    and u: "u \<in> set (user_representations (fst (serve r h e d req)))"
  shows "map_of u ''password'' = None"
proof -
  from run_chain_cases[where ms = "map interp (middlewares r)" and e = e and d = d and req = req and h = h]
  consider (stop) m req1 res where "m \<in> set (middlewares r)" "interp m e d req1 = Inl res"
      "serve r h e d req = (res, d)"
    | (run) req' where "serve r h e d req = h e d req'"
    by (auto simp: serve_def)
  then show ?thesis
  proof cases
    case stop
    with interp_Inl[OF stop(2)] u show ?thesis by simp
  next
    case run
    with h u show ?thesis by simp
  qed
qed

text \<open>
  C8. Whatever registration, login, me, the user list, the read or the update of a user
  answers, no user representation in the answer has a \<open>password\<close> field.
\<close>

theorem user_representation_no_password:
  "(r, h) \<in> set user_endpoints \<Longrightarrow>
   u \<in> set (user_representations (fst (serve r h e d req))) \<Longrightarrow>
   map_of u ''password'' = None"
  by (auto simp: user_endpoints_def
        intro: serve_no_password users_list_no_password users_get_no_password
          users_update_no_password auth_register_no_password auth_login_no_password
          auth_me_no_password)

theorem user_representation_no_password_witness:
  "(AuthLogin, auth_login) \<in> set user_endpoints
   \<and> user_representations (fst (serve AuthLogin auth_login example_env example_db
         (request0\<lparr>body := JObj [(''email'', JStr ''alice@crm.com''),
                                  (''password'', JStr ''admin123'')]\<rparr>)))
       = [[(''id'', JNum 1), (''name'', JStr ''Alice''), (''email'', JStr ''alice@crm.com''),
           (''role'', JStr ''admin''), (''createdAt'', JNum 10), (''updatedAt'', JNum 10)]]
   \<and> map_of [(''id'', JNum 1), (''name'', JStr ''Alice''), (''email'', JStr ''alice@crm.com''),
              (''role'', JStr ''admin''), (''createdAt'', JNum 10), (''updatedAt'', JNum 10)]
         ''password'' = None
   \<and> map_of alice ''password'' = Some (JStr ''hash:admin123'')"
proof -
  let ?req = "request0\<lparr>body := JObj [(''email'', JStr ''alice@crm.com''),
                                    (''password'', JStr ''admin123'')]\<rparr>"
  let ?u = "[(''id'', JNum 1), (''name'', JStr ''Alice''), (''email'', JStr ''alice@crm.com''),
             (''role'', JStr ''admin''), (''createdAt'', JNum 10), (''updatedAt'', JNum 10)]"
  have m: "(AuthLogin, auth_login) \<in> set user_endpoints"
    by (simp add: user_endpoints_def)
  have v: "schema_validate example_env loginSchema (body ?req) = None"
    by (simp add: loginSchema_def joi_def validate_value_def request0_def example_env_def)
  have r: "user_representations (fst (serve AuthLogin auth_login example_env example_db ?req))
             = [?u]"
    using v
    by (simp add: serve_def validate_def auth_login_def findOne_def user_representations_def
          unknown_columns_def column_names_def User_def attr_def
          successResponse_def toJSON_def example_defs)
  have "?u \<in> set (user_representations
          (fst (serve AuthLogin auth_login example_env example_db ?req)))"
    by (simp only: r) simp
  from user_representation_no_password[OF m this] m r show ?thesis
    by (simp add: alice_def)
qed

subsection \<open>Validation in front of the handlers\<close>

lemma gate_keeps_body:
  "authenticateToken e d req = Inr req' \<Longrightarrow> body req' = body req"
  "requireRole roles e d req = Inr req' \<Longrightarrow> req' = req"
  by (auto simp: authenticateToken_def requireRole_def
        split: option.splits jwt_result.splits sum.splits if_splits)

lemma validate_rejects:
  "schema_validate e sch (body req) = Some m \<Longrightarrow>
     validate sch e d req = Inl (Failure 400 m ''VALIDATION_ERROR'')"
  by (simp add: validate_def)

lemma validate_passes:
  "schema_validate e sch (body req) = None \<Longrightarrow> validate sch e d req = Inr req"
  by (simp add: validate_def)

lemma run_chain_snd_validate:
  "Validate sch \<in> set ms \<Longrightarrow> schema_validate e sch (body req) = Some m \<Longrightarrow>
   (\<forall>m' \<in> set ms. \<forall>r r'. interp m' e d r = Inr r' \<longrightarrow> body r' = body r) \<Longrightarrow>
   snd (run_chain (map interp ms) h e d req) = d"
proof (induction ms arbitrary: req)
  case Nil
  then show ?case by simp
next
  case (Cons a ms)
  show ?case
  proof (cases "interp a e d req")
    case (Inl res)
    then show ?thesis by simp
  next
    case (Inr req')
    have b: "body req' = body req" using Cons.prems(3) Inr by auto
    have "a \<noteq> Validate sch" using Inr Cons.prems(2) by (auto simp: validate_def)
    with Cons.prems(1) have "Validate sch \<in> set ms" by simp
    from Cons.IH[OF this, of req'] Cons.prems b Inr show ?thesis by simp
  qed
qed

lemma interp_keeps_body:
  "interp m e d r = Inr r' \<Longrightarrow> body r' = body r"
  by (cases m)
     (auto simp: requireAdmin_def requireUser_def validate_def
        dest: gate_keeps_body split: option.splits)

text \<open>
  The part of C3 that the code keeps: on a route with a schema, a body that the schema
  refuses never reaches the handler. The database is returned as it was, and when the
  gates in front of the schema let the request through, the answer is 400
  \<open>VALIDATION_ERROR\<close> with the first message of the schema.
\<close>

lemma validated_routes:
  assumes "declared_schema r = Some sch" "schema_validate e sch (body req) = Some m"
  shows "snd (serve r h e d req) = d"
    and "declared_roles r = None \<Longrightarrow> r \<noteq> AuthMe \<Longrightarrow> r \<noteq> AuthLogout \<Longrightarrow> r \<noteq> AuthRefresh \<Longrightarrow>
           serve r h e d req = (Failure 400 m ''VALIDATION_ERROR'', d)"
    and "authenticateToken e d req = Inr req' \<Longrightarrow> requireUser e d req' = Inr req'' \<Longrightarrow>
           serve r h e d req = (Failure 400 m ''VALIDATION_ERROR'', d)"
proof -
  have v: "Validate sch \<in> set (middlewares r)"
    using assms(1) by (cases r) (auto simp: declared_schema_def List.map_filter_def)
  show "snd (serve r h e d req) = d"
    unfolding serve_def
    by (rule run_chain_snd_validate[OF v assms(2)]) (auto dest: interp_keeps_body)
  show "serve r h e d req = (Failure 400 m ''VALIDATION_ERROR'', d)"
    if "declared_roles r = None" "r \<noteq> AuthMe" "r \<noteq> AuthLogout" "r \<noteq> AuthRefresh"
    using that assms
    by (cases r)
       (auto simp: serve_def declared_schema_def declared_roles_def List.map_filter_def
          validate_def)
  show "serve r h e d req = (Failure 400 m ''VALIDATION_ERROR'', d)"
    if "authenticateToken e d req = Inr req'" "requireUser e d req' = Inr req''"
  proof -
    have "req'' = req'"
      using that(2) by (auto simp: requireUser_def dest: gate_keeps_body(2))
    then have b: "body req'' = body req"
      using gate_keeps_body(1)[OF that(1)] by simp
    show ?thesis
      using that assms b
      by (cases r)
         (auto simp: serve_def declared_schema_def List.map_filter_def validate_def
            requireAdmin_def requireUser_def requireRole_def split: option.splits if_splits)
  qed
qed

lemma users_update_never_400:
  "status_of (fst (serve UsersUpdate users_update e d req)) \<noteq> 400"
proof -
  have h: "status_of (fst (users_update e d r)) \<noteq> 400" for r
    by (auto simp: users_update_def errorResponse_def successResponse_def
          split: option.splits sum.splits prod.splits)
  show ?thesis
    using h
    by (auto simp: serve_def authenticateToken_def requireAdmin_def requireRole_def
          split: option.splits jwt_result.splits sum.splits if_splits)
qed

text \<open>
  C3. PUT /api/users/:id is a mutating route and has no schema in front of its handler.
  An admin who sends \<open>{"name": "Z"}\<close> for user 2 is answered by the handler, after it
  has looked the user up: 500 \<open>DATABASE_ERROR\<close>, from the model's own length
  validator, and not 400 \<open>VALIDATION_ERROR\<close>.
\<close>

theorem users_update_unvalidated:
  "UsersUpdate \<in> set mutating_routes
   \<and> declared_schema UsersUpdate = None
   \<and> serve UsersUpdate users_update example_env example_db
         ((bearer ''alice'')\<lparr>params_id := ''2'', body := JObj [(''name'', JStr ''Z'')]\<rparr>)
       = (Failure 500 (Message (SequelizeValidationError [ValidatorFailed ''name'']))
            ''DATABASE_ERROR'', example_db)"
  by code_simp

subsection \<open>Creating a lead\<close>

lemma schema_validate_keys:
  "schema_validate e sch (JObj kvs) = None \<Longrightarrow> k \<notin> set (map key sch) \<Longrightarrow> map_of kvs k = None"
proof -
  assume a: "schema_validate e sch (JObj kvs) = None" "k \<notin> set (map key sch)"
  then have "filter (\<lambda>k. k \<notin> set (map key sch)) (map fst kvs) = []"
    by (auto split: option.splits list.splits)
  then have "\<forall>x \<in> set (map fst kvs). x \<in> set (map key sch)"
    by (simp add: filter_empty_conv)
  with a(2) have "k \<notin> fst ` set kvs" by auto
  then show ?thesis by (simp add: map_of_eq_None_iff)
qed

lemma create_Lead_needs_customer_id:
  "map_of kvs ''customer_id'' = None \<Longrightarrow>
     \<exists>vs. create e Lead kvs d = Inl (SequelizeValidationError vs) \<and> NotNull ''customer_id'' \<in> set vs"
proof -
  assume a: "map_of kvs ''customer_id'' = None"
  have b: "map_of (build e Lead kvs) ''customer_id'' = None"
    using a
    by (auto simp: build_def Lead_def attr_def default_of_def map_of_eq_None_iff
          split: option.splits)
  have "NotNull ''customer_id'' \<in> set (validate_instance e Lead (map a_name (attributes Lead))
          (build e Lead kvs))"
    using b by (simp add: validate_instance_def violations_def is_null_def Lead_def attr_def)
  then show ?thesis
    by (cases "validate_instance e Lead (map a_name (attributes Lead)) (build e Lead kvs)")
       (auto simp: create_def Let_def)
qed

text \<open>
  POST /api/leads never creates a lead: a body that \<open>leadSchema\<close> lets through has no
  key \<open>customer_id\<close>, the model has no attribute \<open>customerId\<close>, and the model forbids
  a lead without customer.
\<close>

lemma leads_create_never_201:
  "status_of (fst (serve LeadsCreate leads_create e d req)) \<noteq> 201"
proof -
  have h: "status_of (fst (leads_create e d r)) \<noteq> 201"
    if "schema_validate e leadSchema (body r) = None" for r
  proof (cases "body r")
    case (JObj kvs)
    have "''customer_id'' \<notin> set (map key leadSchema)"
      by (simp add: leadSchema_def joi_def)
    from schema_validate_keys[OF that[unfolded JObj] this]
    have "map_of kvs ''customer_id'' = None" .
    from create_Lead_needs_customer_id[OF this, of e d] show ?thesis
      by (auto simp: leads_create_def JObj errorResponse_def)
  qed (use that in auto)
  show ?thesis
    using h
    by (auto simp: serve_def authenticateToken_def requireUser_def requireRole_def validate_def
          split: option.splits jwt_result.splits sum.splits if_splits)
qed

text \<open>
  C2. The user Bob posts \<open>{"title": "Deal", "customerId": 1}\<close> to /api/leads, and
  customer 1 exists. The answer is 500 \<open>DATABASE_ERROR\<close> (the lead has no
  \<open>customer_id\<close>), no lead is created, and the database is as it was.
\<close>

theorem leads_create_customerId:
  "findByPk example_env (customers example_db) (Some (JNum 1)) = Inr (Some acme)
   \<and> serve LeadsCreate leads_create example_env example_db
         ((bearer ''bob'')\<lparr>body := JObj [(''title'', JStr ''Deal''), (''customerId'', JNum 1)]\<rparr>)
       = (Failure 500 (Message (SequelizeValidationError [NotNull ''customer_id'']))
            ''DATABASE_ERROR'', example_db)"
  by code_simp

subsection \<open>Deleting a customer\<close>

lemma onDelete_customers:
  "map (\<lambda>a. (tableName (target a), onDelete a)) (filter (\<lambda>a. source a = Customers) associations)
     = [(''leads'', CASCADE), (''tasks'', SET_NULL), (''interactions'', CASCADE)]"
  by (simp add: associations_def onDelete_def Lead_def Task_def Interaction_def attr_def)

lemma destroy_customer:
  "map_of c ''id'' = Some idv \<Longrightarrow>
   destroy Customers c d =
     d\<lparr>customers := filter (\<lambda>r. map_of r ''id'' \<noteq> Some idv) (customers d),
        leads := filter (\<lambda>r. map_of r ''customer_id'' \<noteq> Some idv) (leads d),
        tasks := map (\<lambda>r. if map_of r ''customerId'' = Some idv
                            then AList.update ''customerId'' JNull r else r) (tasks d),
        interactions := filter (\<lambda>r. map_of r ''customer_id'' \<noteq> Some idv) (interactions d)\<rparr>"
  by (simp add: destroy_def associations_def apply_on_delete_def onDelete_def column_key_def
        refers_def Lead_def Task_def Interaction_def attr_def Let_def)

text \<open>
  C1. The user Bob deletes customer 1, who has a lead, a task and an interaction. The
  customer, the lead and the interaction are removed; the task stays, with no customer.
\<close>

theorem customers_delete_keeps_tasks:
  "serve CustomersDelete customers_delete example_env example_db
     ((bearer ''bob'')\<lparr>params_id := ''1''\<rparr>)
   = (Success 200 (JObj []) ''Customer deleted successfully'',
      example_db\<lparr>customers := [], leads := [], interactions := [],
        tasks := [[(''id'', JNum 1), (''title'', JStr ''Call back''),
                   (''status'', JStr ''pending''), (''priority'', JStr ''medium''),
                   (''assignedTo'', JNum 2), (''customerId'', JNull),
                   (''createdAt'', JNum 50), (''updatedAt'', JNum 50)]]\<rparr>)"
  by code_simp

subsection \<open>The stage of a lead\<close>

lemma update_stage:
  "update e Lead lead [(''stage'', JStr s)] d =
     (if map_of lead ''stage'' = Some (JStr s) then Inr (lead, d)
      else if \<not> db_accepts e (ENUM [''lead'', ''qualified'', ''proposal'', ''closed'']) (JStr s)
      then Inl (SequelizeDatabaseError ''stage'')
      else Inr (AList.update ''updatedAt'' (JNum (now e)) (AList.update ''stage'' (JStr s) lead),
             d\<lparr>leads := map (\<lambda>r'. if same_id r' lead
                  then AList.update ''updatedAt'' (JNum (now e))
                         (AList.update ''stage'' (JStr s) lead)
                  else r') (leads d)\<rparr>))"
  by (simp add: update_def set_values_def Lead_def attr_def validate_instance_def
        violations_def is_null_def write_check_def type_errors_def unique_errors_def
        fk_errors_def written_def update_conv' Let_def)

lemma find_Some_set: "find P xs = Some x \<Longrightarrow> x \<in> set xs \<and> P x"
  by (induction xs) (auto split: if_splits)

lemma findByPk_Some:
  "findByPk e rs v = Inr (Some r) \<Longrightarrow> r \<in> set rs \<and> map_of r ''id'' \<noteq> None"
  by (auto simp: findByPk_def by_id_def split: option.splits json.splits sum.splits
        dest!: find_Some_set)

lemma findByPk_string:
  assumes "findByPk e rs (Some (JStr s)) = Inr (Some r)"
  obtains q where "by_id rs (JNum q) = Some r"
    and "\<And>rs'. findByPk e rs' (Some (JStr s)) = Inr (by_id rs' (JNum q))"
  using assms by (auto simp: findByPk_def split: option.splits sum.splits)

lemma same_id_distinct:
  assumes "distinct (map (\<lambda>r. map_of r ''id'') rs)" "r \<in> set rs" "r' \<in> set rs"
  shows "same_id r' r \<longleftrightarrow> r' = r"
proof -
  from assms(1) have "inj_on (\<lambda>r. map_of r ''id'') (set rs)"
    by (simp add: distinct_map)
  with assms(2,3) show ?thesis by (auto simp: same_id_def dest: inj_onD)
qed

lemma stage_schema_passes:
  "s \<in> set [''lead'', ''qualified'', ''proposal'', ''closed''] \<Longrightarrow>
     schema_validate e updateLeadStageSchema (JObj [(''stage'', JStr s)]) = None"
  by (auto simp: updateLeadStageSchema_def joi_def validate_value_def)

text \<open>
  C10. A user with an accepted role puts a stage of the enumeration on an existing lead.
  Whatever the answer, the database differs from the one before in the table of leads
  at most; there, every row but the lead's is as it was, and the lead's row differs in
  \<open>stage\<close> and \<open>updatedAt\<close> at most. When the answer is 200 the lead has the new
  stage, and the answer is 200 when the database takes the value for the column.
\<close>

theorem leads_stage_frame:
  assumes "authenticateToken e d req = Inr req'" and "requireUser e d req' = Inr req'"
    and "findByPk e (leads d) (Some (JStr (params_id req))) = Inr (Some lead)"
    and "body req = JObj [(''stage'', JStr s)]"
    and "s \<in> set [''lead'', ''qualified'', ''proposal'', ''closed'']"
    and "distinct (map (\<lambda>r. map_of r ''id'') (leads d))"
  shows "\<exists>res leads'.
      serve LeadsStage leads_stage e d req = (res, d\<lparr>leads := leads'\<rparr>)
    \<and> length leads' = length (leads d)
    \<and> (\<forall>i < length (leads d).
          (leads d ! i \<noteq> lead \<longrightarrow> leads' ! i = leads d ! i)
        \<and> (leads d ! i = lead \<longrightarrow>
             (\<forall>k. k \<noteq> ''stage'' \<and> k \<noteq> ''updatedAt'' \<longrightarrow>
                  map_of (leads' ! i) k = map_of lead k)
           \<and> (status_of res = 200 \<longrightarrow> map_of (leads' ! i) ''stage'' = Some (JStr s))))
    \<and> (db_accepts e (ENUM [''lead'', ''qualified'', ''proposal'', ''closed'']) (JStr s)
          \<longrightarrow> status_of res = 200)"
proof -
  from authenticateToken_Inr[OF assms(1)] obtain u where r': "req' = req\<lparr>user := Some u\<rparr>"
    by blast
  have v: "schema_validate e updateLeadStageSchema (body req') = None"
    using stage_schema_passes[OF assms(5)] assms(4) r' by simp
  have run: "serve LeadsStage leads_stage e d req = leads_stage e d req'"
    using assms(1,2) v by (simp add: serve_def validate_def)
  have bv: "body_values req' [''stage''] = [(''stage'', JStr s)]"
    using assms(4) r' by (simp add: body_values_def)
  from findByPk_string[OF assms(3)] obtain q where
    b: "by_id (leads d) (JNum q) = Some lead"
    and f0: "\<And>rs'. findByPk e rs' (Some (JStr (params_id req))) = Inr (by_id rs' (JNum q))"
    by blast
  have f: "findByPk e rs' (Some (JStr (params_id req'))) = Inr (by_id rs' (JNum q))" for rs'
    using f0 r' by simp
  have mem: "lead \<in> set (leads d)" using findByPk_Some[OF assms(3)] by simp
  let ?r2 = "AList.update ''updatedAt'' (JNum (now e)) (AList.update ''stage'' (JStr s) lead)"
  let ?ls = "map (\<lambda>r'. if same_id r' lead then ?r2 else r') (leads d)"
  have same: "same_id (leads d ! i) lead \<longleftrightarrow> leads d ! i = lead" if "i < length (leads d)" for i
    using same_id_distinct[OF assms(6) mem, of "leads d ! i"] that by simp
  have d0: "d = d\<lparr>leads := leads d\<rparr>" by simp
  consider (same) "map_of lead ''stage'' = Some (JStr s)"
    | (refused) "map_of lead ''stage'' \<noteq> Some (JStr s)"
        "\<not> db_accepts e (ENUM [''lead'', ''qualified'', ''proposal'', ''closed'']) (JStr s)"
    | (written) "map_of lead ''stage'' \<noteq> Some (JStr s)"
        "db_accepts e (ENUM [''lead'', ''qualified'', ''proposal'', ''closed'']) (JStr s)"
    by blast
  then show ?thesis
  proof cases
    case same
    have "\<exists>res. leads_stage e d req' = (res, d) \<and> status_of res = 200"
      using f b bv same
      by (simp add: leads_stage_def update_stage successResponse_def)
    then obtain res where res: "leads_stage e d req' = (res, d\<lparr>leads := leads d\<rparr>)"
      "status_of res = 200" by auto
    show ?thesis
      by (rule exI[of _ res], rule exI[of _ "leads d"]) (use res run same in auto)
  next
    case refused
    have "\<exists>res. leads_stage e d req' = (res, d) \<and> status_of res = 500"
      using f b bv refused
      by (simp add: leads_stage_def update_stage errorResponse_def)
    then obtain res where res: "leads_stage e d req' = (res, d\<lparr>leads := leads d\<rparr>)"
      "status_of res = 500" by auto
    show ?thesis
      by (rule exI[of _ res], rule exI[of _ "leads d"]) (use res run refused in auto)
  next
    case written
    have "\<exists>res. leads_stage e d req' = (res, d\<lparr>leads := ?ls\<rparr>) \<and> status_of res = 200"
      using f b bv written
      by (simp add: leads_stage_def update_stage successResponse_def)
    then obtain res where res: "leads_stage e d req' = (res, d\<lparr>leads := ?ls\<rparr>)"
      "status_of res = 200" by auto
    show ?thesis
      by (rule exI[of _ res], rule exI[of _ ?ls])
         (use res run written same in \<open>auto simp: update_conv'\<close>)
  qed
qed

theorem leads_stage_frame_witness:
  "authenticateToken example_env example_db
       ((bearer ''bob'')\<lparr>params_id := ''1'', body := JObj [(''stage'', JStr ''qualified'')]\<rparr>)
     = Inr ((bearer ''bob'')\<lparr>params_id := ''1'',
              body := JObj [(''stage'', JStr ''qualified'')], user := Some bob\<rparr>)
   \<and> findByPk example_env (leads example_db) (Some (JStr ''1'')) = Inr (Some deal)
   \<and> (\<exists>res leads'.
        serve LeadsStage leads_stage example_env example_db
          ((bearer ''bob'')\<lparr>params_id := ''1'', body := JObj [(''stage'', JStr ''qualified'')]\<rparr>)
          = (res, example_db\<lparr>leads := leads'\<rparr>)
        \<and> status_of res = 200
        \<and> leads' = [[(''id'', JNum 1), (''title'', JStr ''Deal''), (''description'', JNull),
                      (''stage'', JStr ''qualified''), (''value'', JNum 5000),
                      (''customer_id'', JNum 1), (''assigned_to'', JNum 2),
                      (''createdAt'', JNum 40), (''updatedAt'', JNum 1000)]])"
proof -
  let ?req = "(bearer ''bob'')\<lparr>params_id := ''1'', body := JObj [(''stage'', JStr ''qualified'')]\<rparr>"
  let ?req' = "(bearer ''bob'')\<lparr>params_id := ''1'',
                 body := JObj [(''stage'', JStr ''qualified'')], user := Some bob\<rparr>"
  have h1: "authenticateToken example_env example_db ?req = Inr ?req'" by code_simp
  have h2: "requireUser example_env example_db ?req' = Inr ?req'" by code_simp
  have h3: "findByPk example_env (leads example_db) (Some (JStr (params_id ?req)))
              = Inr (Some deal)" by code_simp
  have h4: "body ?req = JObj [(''stage'', JStr ''qualified'')]" by (simp add: bearer_def request0_def)
  have h5: "''qualified'' \<in> set [''lead'', ''qualified'', ''proposal'', ''closed'']" by simp
  have h6: "distinct (map (\<lambda>r. map_of r ''id'') (leads example_db))"
    by (simp add: example_db_def)
  have acc: "db_accepts example_env (ENUM [''lead'', ''qualified'', ''proposal'', ''closed''])
               (JStr ''qualified'')"
    by (simp add: example_env_def)
  have l: "leads example_db = [deal]" by (simp add: example_db_def)
  from leads_stage_frame[OF h1 h2 h3 h4 h5 h6] obtain res leads' where
    c: "serve LeadsStage leads_stage example_env example_db ?req
          = (res, example_db\<lparr>leads := leads'\<rparr>)"
       "length leads' = length (leads example_db)"
       "status_of res = 200"
    using acc by blast
  have e: "snd (serve LeadsStage leads_stage example_env example_db ?req)
             = example_db\<lparr>leads := [[(''id'', JNum 1), (''title'', JStr ''Deal''),
                      (''description'', JNull),
                      (''stage'', JStr ''qualified''), (''value'', JNum 5000),
                      (''customer_id'', JNum 1), (''assigned_to'', JNum 2),
                      (''createdAt'', JNum 40), (''updatedAt'', JNum 1000)]]\<rparr>"
    by code_simp
  have "leads (snd (serve LeadsStage leads_stage example_env example_db ?req)) = leads'"
    by (simp add: c(1))
  with e have "leads' = [[(''id'', JNum 1), (''title'', JStr ''Deal''),
                      (''description'', JNull),
                      (''stage'', JStr ''qualified''), (''value'', JNum 5000),
                      (''customer_id'', JNum 1), (''assigned_to'', JNum 2),
                      (''createdAt'', JNum 40), (''updatedAt'', JNum 1000)]]"
    by simp
  with c h1 h3 show ?thesis by (auto simp: bearer_def request0_def)
qed

subsection \<open>Pages\<close>

lemma gates_keep_query:
  "authenticateToken e d req = Inr x \<Longrightarrow> query x = query req \<and> params_id x = params_id req"
  "requireRole roles e d req = Inr x \<Longrightarrow> x = req"
  by (auto simp: authenticateToken_def requireRole_def
        split: option.splits jwt_result.splits sum.splits if_splits)

text \<open>
  GET /api/customers/:id/interactions never lists anything: its \<open>where\<close> option is
  \<open>{ customerId: id }\<close>, and the model of the interactions has the attribute
  \<open>customer_id\<close> and no column \<open>customerId\<close>.
\<close>

lemma customer_interactions_list_never_200:
  "status_of (fst (serve CustomersInteractionsList customer_interactions_list e d req)) \<noteq> 200"
proof -
  have u: "unknown_columns Interaction [Eq ''customerId'' v] [(''date'', DESC)] = [''customerId'']"
    for v
    by (simp add: unknown_columns_def column_names_def Interaction_def attr_def)
  have h: "status_of (fst (customer_interactions_list e d r)) \<noteq> 200" for r
    by (simp add: customer_interactions_list_def findAndCountAll_def u errorResponse_def Let_def)
  show ?thesis
    using h
    by (auto simp: serve_def authenticateToken_def requireUser_def requireRole_def
          split: option.splits jwt_result.splits sum.splits if_splits)
qed

text \<open>
  C4. Customer 1 has one interaction. Bob asks for the first page of the interactions of
  customer 1 with limit 1, GET /api/customers/1/interactions?page=1&limit=1: the answer
  is 500 \<open>DATABASE_ERROR\<close>, with no row and no pagination block. The same request to
  GET /api/interactions lists the interaction, with \<open>pages\<close> equal to 1.
\<close>

theorem customer_interactions_list_fails:
  "(CustomersInteractionsList, customer_interactions_list, ''interactions'') \<in> set list_endpoints
   \<and> interactions example_db = [first_call]
   \<and> map_of first_call ''customer_id'' = Some (JNum 1)
   \<and> serve CustomersInteractionsList customer_interactions_list example_env example_db
         ((bearer ''bob'')\<lparr>params_id := ''1'', query := [(''page'', ''1''), (''limit'', ''1'')]\<rparr>)
       = (Failure 500 (Message (SequelizeDatabaseError ''customerId'')) ''DATABASE_ERROR'',
          example_db)
   \<and> fst (serve InteractionsList interactions_list example_env example_db
         ((bearer ''bob'')\<lparr>query := [(''page'', ''1''), (''limit'', ''1'')]\<rparr>))
       = Success 200
           (JObj [(''interactions'',
                   JArr [JObj (first_call
                      @ [(''customer'', JObj [(''id'', JNum 1), (''name'', JStr ''Acme''),
                            (''email'', JStr ''a@acme.com''), (''company'', JStr ''Acme Corp'')]),
                         (''createdByUser'', JObj [(''id'', JNum 1), (''name'', JStr ''Alice''),
                            (''email'', JStr ''alice@crm.com'')])])]),
                  (''pagination'', JObj [(''page'', JNum 1), (''limit'', JNum 1),
                                         (''total'', JNum 1), (''pages'', JNum 1)])])
           ''Success''"
proof -
  have m: "(CustomersInteractionsList, customer_interactions_list, ''interactions'')
             \<in> set list_endpoints"
    by (simp add: list_endpoints_def)
  have c: "interactions example_db = [first_call]
   \<and> map_of first_call ''customer_id'' = Some (JNum 1)
   \<and> serve CustomersInteractionsList customer_interactions_list example_env example_db
         ((bearer ''bob'')\<lparr>params_id := ''1'', query := [(''page'', ''1''), (''limit'', ''1'')]\<rparr>)
       = (Failure 500 (Message (SequelizeDatabaseError ''customerId'')) ''DATABASE_ERROR'',
          example_db)
   \<and> fst (serve InteractionsList interactions_list example_env example_db
         ((bearer ''bob'')\<lparr>query := [(''page'', ''1''), (''limit'', ''1'')]\<rparr>))
       = Success 200
           (JObj [(''interactions'',
                   JArr [JObj (first_call
                      @ [(''customer'', JObj [(''id'', JNum 1), (''name'', JStr ''Acme''),
                            (''email'', JStr ''a@acme.com''), (''company'', JStr ''Acme Corp'')]),
                         (''createdByUser'', JObj [(''id'', JNum 1), (''name'', JStr ''Alice''),
                            (''email'', JStr ''alice@crm.com'')])])]),
                  (''pagination'', JObj [(''page'', JNum 1), (''limit'', JNum 1),
                                         (''total'', JNum 1), (''pages'', JNum 1)])])
           ''Success''"
    by code_simp
  from m c show ?thesis by (rule conjI)
qed

end
